theory Spec2Isabelle
  imports Complex_Main "HOL-Library.Multiset"
begin

section \<open>JavaScript values used by the program\<close>

text \<open>
  The program is JavaScript. Its numbers are modelled as exact numbers: the integer
  millisecond timestamps as \<open>int\<close>, prices, volumes, scores and hours as \<open>real\<close>.
  The value \<open>NaN\<close> is kept apart wherever the code can produce it (\<open>parseInt\<close> of a
  text with no digits, \<open>Date.UTC\<close> of \<open>NaN\<close>), \<open>null\<close> and \<open>undefined\<close> are \<open>None\<close>,
  and a division by zero is written out at the one place where the code divides by an
  unguarded number. Strings are lists of characters; the symbols of the market feed are
  ASCII, where a character is one UTF-16 code unit.
\<close>

datatype jsnum = NaN | Num int

text \<open>JavaScript truthiness of a number or \<open>null\<close>: \<open>null\<close>, \<open>NaN\<close> and \<open>0\<close> are falsy.\<close>

fun truthy :: "jsnum option \<Rightarrow> bool" where
  "truthy None = False"
| "truthy (Some NaN) = False"
| "truthy (Some (Num n)) = (n \<noteq> 0)"

subsection \<open>\<open>String.prototype.split\<close> and \<open>slice\<close>\<close>

text \<open>\<open>s.split(c)\<close> for a one-character separator: never empty, \<open>''''\<close> gives \<open>['''']\<close>.\<close>

fun split_on :: "char \<Rightarrow> string \<Rightarrow> string list" where
  "split_on c [] = [[]]"
| "split_on c (x # xs) =
     (if x = c then [] # split_on c xs
      else (let r = split_on c xs in (x # hd r) # tl r))"

text \<open>The index arithmetic of \<open>slice\<close>: a negative index counts from the end, and both
  ends are clamped into \<open>0..len\<close>.\<close>

definition rel_index :: "int \<Rightarrow> int \<Rightarrow> int" where
  "rel_index len i = (if i < 0 then max (len + i) 0 else min i len)"

definition slice :: "string \<Rightarrow> int \<Rightarrow> int \<Rightarrow> string" where
  "slice s b e =
     (let len = int (length s); from = rel_index len b; to = rel_index len e
      in take (nat (to - from)) (drop (nat from) s))"

text \<open>\<open>s.slice(b)\<close>, with the end left out.\<close>

definition slice_from :: "string \<Rightarrow> int \<Rightarrow> string" where
  "slice_from s b = drop (nat (rel_index (int (length s)) b)) s"

subsection \<open>\<open>parseInt\<close> with no radix\<close>

definition is_space :: "char \<Rightarrow> bool" where
  "is_space c = (c \<in> set [CHR 0x09, CHR 0x0A, CHR 0x0B, CHR 0x0C, CHR 0x0D, CHR 0x20])"

definition hex_digit :: "char \<Rightarrow> int option" where
  "hex_digit = map_of
     [(CHR ''0'', 0), (CHR ''1'', 1), (CHR ''2'', 2), (CHR ''3'', 3), (CHR ''4'', 4),
      (CHR ''5'', 5), (CHR ''6'', 6), (CHR ''7'', 7), (CHR ''8'', 8), (CHR ''9'', 9),
      (CHR ''a'', 10), (CHR ''b'', 11), (CHR ''c'', 12), (CHR ''d'', 13), (CHR ''e'', 14),
      (CHR ''f'', 15), (CHR ''A'', 10), (CHR ''B'', 11), (CHR ''C'', 12), (CHR ''D'', 13),
      (CHR ''E'', 14), (CHR ''F'', 15)]"

text \<open>The value of a character as a digit of the radix, if it is one.\<close>

definition digit_of :: "int \<Rightarrow> char \<Rightarrow> int option" where
  "digit_of radix c =
     (case hex_digit c of None \<Rightarrow> None
      | Some d \<Rightarrow> if d < radix then Some d else None)"

text \<open>The longest prefix of digits, read in the radix; \<open>None\<close> when it is empty.\<close>

fun read_digits :: "int \<Rightarrow> int option \<Rightarrow> string \<Rightarrow> int option" where
  "read_digits radix acc [] = acc"
| "read_digits radix acc (c # cs) =
     (case digit_of radix c of
        None \<Rightarrow> acc
      | Some d \<Rightarrow> read_digits radix
          (Some ((case acc of None \<Rightarrow> 0 | Some a \<Rightarrow> a) * radix + d)) cs)"

definition has_hex_prefix :: "string \<Rightarrow> bool" where
  "has_hex_prefix s = (take 2 s = ''0x'' \<or> take 2 s = ''0X'')"

definition parseInt :: "string \<Rightarrow> jsnum" where
  "parseInt str =
     (let s = dropWhile is_space str;
          neg = (s \<noteq> [] \<and> hd s = CHR ''-'');
          s1 = (if s \<noteq> [] \<and> (hd s = CHR ''+'' \<or> hd s = CHR ''-'') then tl s else s);
          radix = (if has_hex_prefix s1 then 16 else 10);
          s2 = (if has_hex_prefix s1 then drop 2 s1 else s1)
      in case read_digits radix None s2 of
           None \<Rightarrow> NaN
         | Some n \<Rightarrow> Num (if neg then - n else n))"

subsection \<open>\<open>Date.UTC\<close> and \<open>toISOString\<close>\<close>

definition msPerDay :: int where
  "msPerDay = 86400000"

text \<open>The number of the first day of a year, counted from 1 January 1970.\<close>

definition DayFromYear :: "int \<Rightarrow> int" where
  "DayFromYear y =
     365 * (y - 1970) + (y - 1969) div 4 - (y - 1901) div 100 + (y - 1601) div 400"

definition InLeapYear :: "int \<Rightarrow> bool" where
  "InLeapYear y = (DayFromYear (y + 1) - DayFromYear y = 366)"

text \<open>The day within the year on which month \<open>m\<close> (0 to 11) begins.\<close>

definition month_start :: "int \<Rightarrow> int \<Rightarrow> int" where
  "month_start y m =
     [0, 31, 59, 90, 120, 151, 181, 212, 243, 273, 304, 334] ! nat m
       + (if 2 \<le> m \<and> InLeapYear y then 1 else 0)"

definition MakeDay :: "int \<Rightarrow> int \<Rightarrow> int \<Rightarrow> int" where
  "MakeDay year month date =
     (let ym = year + month div 12; mn = month mod 12
      in DayFromYear ym + month_start ym mn + date - 1)"

definition MakeTime :: "int \<Rightarrow> int \<Rightarrow> int \<Rightarrow> int \<Rightarrow> int" where
  "MakeTime hour minute sec ms = hour * 3600000 + minute * 60000 + sec * 1000 + ms"

definition TimeClip :: "int \<Rightarrow> jsnum" where
  "TimeClip t = (if \<bar>t\<bar> > 8640000000000000 then NaN else Num t)"

text \<open>\<open>Date.UTC(year, month, day, hours, minutes, seconds)\<close>; a two-digit year counts
  from 1900. \<open>new Date(v).getTime()\<close> gives the clipped value back.\<close>

definition Date_UTC :: "jsnum \<Rightarrow> int \<Rightarrow> jsnum \<Rightarrow> int \<Rightarrow> int \<Rightarrow> int \<Rightarrow> jsnum" where
  "Date_UTC year month day hours minutes seconds =
     (case year of NaN \<Rightarrow> NaN
      | Num y \<Rightarrow>
         (case day of NaN \<Rightarrow> NaN
          | Num d \<Rightarrow>
             (let yr = (if 0 \<le> y \<and> y \<le> 99 then 1900 + y else y)
              in TimeClip (MakeDay yr month d * msPerDay + MakeTime hours minutes seconds 0))))"

text \<open>The year of a day number: the largest \<open>y\<close> with \<open>DayFromYear y \<le> d\<close>, found
  from the mean length of a year and corrected by at most one.\<close>

definition YearFromDay :: "int \<Rightarrow> int" where
  "YearFromDay d =
     (let y = 1970 + (d * 400) div 146097
      in if d < DayFromYear y then y - 1
         else if DayFromYear (y + 1) \<le> d then y + 1 else y)"

text \<open>The month (0 to 11) of a day within its year: the last month that has begun.\<close>

definition MonthFromDay :: "int \<Rightarrow> int \<Rightarrow> int" where
  "MonthFromDay y dy = int (length (filter (\<lambda>m. month_start y m \<le> dy) [1..11]))"

definition digit_char :: "int \<Rightarrow> char" where
  "digit_char n = ''0123456789'' ! nat (n mod 10)"

text \<open>The last \<open>w\<close> decimal digits of a non-negative number, with leading zeros.\<close>

fun pad :: "nat \<Rightarrow> int \<Rightarrow> string" where
  "pad 0 n = []"
| "pad (Suc w) n = pad w (n div 10) @ [digit_char n]"

definition year_string :: "int \<Rightarrow> string" where
  "year_string y =
     (if 0 \<le> y \<and> y \<le> 9999 then pad 4 y
      else (if y < 0 then ''-'' else ''+'') @ pad 6 \<bar>y\<bar>)"

text \<open>\<open>new Date(t).toISOString()\<close> for a time value in range.\<close>

definition toISOString :: "int \<Rightarrow> string" where
  "toISOString t =
     (let d = t div msPerDay; ms = t mod msPerDay;
          y = YearFromDay d; dy = d - DayFromYear y;
          m = MonthFromDay y dy; dt = dy - month_start y m + 1
      in year_string y @ ''-'' @ pad 2 (m + 1) @ ''-'' @ pad 2 dt @ ''T''
           @ pad 2 (ms div 3600000) @ '':'' @ pad 2 (ms div 60000 mod 60) @ '':''
           @ pad 2 (ms div 1000 mod 60) @ ''.'' @ pad 3 (ms mod 1000) @ ''Z'')"

section \<open>The expiry parser (dataCollector.js)\<close>

definition monthMap :: "string \<Rightarrow> int option" where
  "monthMap = map_of
     [(''JAN'', 0), (''FEB'', 1), (''MAR'', 2), (''APR'', 3), (''MAY'', 4), (''JUN'', 5),
      (''JUL'', 6), (''AUG'', 7), (''SEP'', 8), (''OCT'', 9), (''NOV'', 10), (''DEC'', 11)]"

text \<open>\<open>parseExpiryTimestamp(instrumentName)\<close>: \<open>None\<close> is the \<open>null\<close> of the two early
  returns. The month text has at most three characters, so the lookup in the object
  literal meets no inherited property.\<close>

definition parseExpiryTimestamp :: "string \<Rightarrow> jsnum option" where
  "parseExpiryTimestamp instrumentName =
     (let parts = split_on CHR ''-'' instrumentName
      in if length parts < 2 then None
         else
           (let expiryStr = parts ! 1;
                day = parseInt (slice expiryStr 0 (-5));
                monthStr = slice expiryStr (-5) (-2);
                year = (case parseInt (slice_from expiryStr (-2)) of
                          NaN \<Rightarrow> NaN | Num n \<Rightarrow> Num (2000 + n))
            in case monthMap monthStr of
                 None \<Rightarrow> None
               | Some month \<Rightarrow> Some (Date_UTC year month day 8 0 0)))"

text \<open>The cohort key both consumers compute from a truthy timestamp:
  \<open>new Date(expiryTimestamp).toISOString().split('T')[0]\<close>.\<close>

definition expiryKey :: "int \<Rightarrow> string" where
  "expiryKey expiryTimestamp = hd (split_on CHR ''T'' (toISOString expiryTimestamp))"

section \<open>The live monitor (advancedMonitor.js)\<close>

text \<open>One entry of the market feed, with the fields the monitor reads.\<close>

record option_quote =
  instrument_name :: string
  mark_price :: real
  volume_usd :: real
  open_interest :: real

text \<open>The grouped entry \<open>{...opt, timeToExpiry, expiryTimestamp}\<close>.\<close>

record grouped_opt = option_quote +
  timeToExpiry :: real
  expiryTimestamp :: int

record thresholds =
  priceWeight :: real
  volumeWeight :: real
  oiWeight :: real
  anomalyScoreThreshold :: real
  minTimeToExpiry :: real
  maxTimeToExpiry :: real

definition OPTIMAL_THRESHOLDS :: thresholds where
  "OPTIMAL_THRESHOLDS =
     \<lparr>priceWeight = 1.5, volumeWeight = 1.0, oiWeight = 0.5,
      anomalyScoreThreshold = 5.0, minTimeToExpiry = 0.5, maxTimeToExpiry = 48\<rparr>"

record stats =
  avgPrice :: real
  avgVolume :: real
  avgOI :: real
  stdPrice :: real
  stdVolume :: real
  stdOI :: real
  count :: nat

text \<open>\<open>values.reduce((a, b) => a + b, 0)\<close>.\<close>

definition reduce_sum :: "real list \<Rightarrow> real" where
  "reduce_sum vs = foldl (\<lambda>a b. a + b) 0 vs"

definition calculateStdDev :: "real list \<Rightarrow> real \<Rightarrow> real" where
  "calculateStdDev vs mean =
     (if length vs = 0 then 0
      else (let squareDiffs = map (\<lambda>v. (v - mean) ^ 2) vs;
                avgSquareDiff = reduce_sum squareDiffs / real (length vs)
            in sqrt avgSquareDiff))"

text \<open>\<open>expiryGroups[key].push(x)\<close>, creating the group at the end when the key is new:
  the groups keep the order in which their keys first appear, which is the order
  \<open>Object.entries\<close> enumerates them in (the keys are calendar dates, never array
  indices).\<close>

fun group_push :: "string \<Rightarrow> 'a \<Rightarrow> (string \<times> 'a list) list \<Rightarrow> (string \<times> 'a list) list" where
  "group_push k x [] = [(k, [x])]"
| "group_push k x ((k', xs) # g) =
     (if k = k' then (k', xs @ [x]) # g else (k', xs) # group_push k x g)"

text \<open>The body of the first \<open>forEach\<close> of \<open>calculateAdvancedStats\<close>: one feed entry
  is parsed, filtered by the window and pushed to its group.\<close>

definition group_step ::
  "thresholds \<Rightarrow> int \<Rightarrow> (string \<times> grouped_opt list) list \<Rightarrow> option_quote
     \<Rightarrow> (string \<times> grouped_opt list) list" where
  "group_step th currentTime expiryGroups opt =
     (let parsed = parseExpiryTimestamp (instrument_name opt)
      in if \<not> truthy parsed then expiryGroups
         else (case parsed of
                 Some (Num ts) \<Rightarrow>
                   (let tte = real_of_int (ts - currentTime) / (1000 * 60 * 60)
                    in if tte < minTimeToExpiry th \<or> tte > maxTimeToExpiry th
                       then expiryGroups
                       else group_push (expiryKey ts)
                              (option_quote.extend opt
                                 \<lparr>timeToExpiry = tte, expiryTimestamp = ts\<rparr>)
                              expiryGroups)
               | _ \<Rightarrow> expiryGroups))"

text \<open>The body of the second \<open>forEach\<close>: the statistics of one cohort, if it has a
  strictly positive price.\<close>

definition cohort_stats :: "grouped_opt list \<Rightarrow> stats option" where
  "cohort_stats opts =
     (let validPrices = map mark_price (filter (\<lambda>x. mark_price x > 0) opts);
          validVolumes = map volume_usd (filter (\<lambda>x. volume_usd x > 0) opts);
          validOI = map open_interest (filter (\<lambda>x. open_interest x > 0) opts)
      in if length validPrices > 0 then
           (let avgPrice = reduce_sum validPrices / real (length validPrices);
                avgVolume = (if length validVolumes > 0
                             then reduce_sum validVolumes / real (length validVolumes) else 0);
                avgOI = (if length validOI > 0
                         then reduce_sum validOI / real (length validOI) else 0)
            in Some \<lparr>avgPrice = avgPrice, avgVolume = avgVolume, avgOI = avgOI,
                     stdPrice = calculateStdDev validPrices avgPrice,
                     stdVolume = (if length validVolumes > 0
                                  then calculateStdDev validVolumes avgVolume else 0),
                     stdOI = (if length validOI > 0 then calculateStdDev validOI avgOI else 0),
                     count = length opts\<rparr>)
         else None)"

text \<open>\<open>calculateAdvancedStats(options)\<close>, with the mutable thresholds and \<open>Date.now()\<close>
  as arguments. The statistics object is the list of the cohorts that have one.\<close>

definition calculateAdvancedStats ::
  "thresholds \<Rightarrow> int \<Rightarrow> option_quote list
     \<Rightarrow> (string \<times> grouped_opt list) list \<times> (string \<times> stats) list" where
  "calculateAdvancedStats th currentTime options =
     (let expiryGroups = foldl (group_step th currentTime) [] options;
          expiryStats = concat (map (\<lambda>(expiry, opts).
                          case cohort_stats opts of None \<Rightarrow> [] | Some st \<Rightarrow> [(expiry, st)])
                        expiryGroups)
      in (expiryGroups, expiryStats))"


subsection \<open>The live scorer\<close>

text \<open>The local constants of \<open>detectHighProbabilityAlerts\<close>, one definition each.\<close>

definition priceZScore :: "stats \<Rightarrow> grouped_opt \<Rightarrow> real" where
  "priceZScore st opt =
     (if stdPrice st > 0 then \<bar>(mark_price opt - avgPrice st) / stdPrice st\<bar> else 0)"

definition volumeZScore :: "stats \<Rightarrow> grouped_opt \<Rightarrow> real" where
  "volumeZScore st opt =
     (if stdVolume st > 0 \<and> volume_usd opt > 0
      then \<bar>(volume_usd opt - avgVolume st) / stdVolume st\<bar> else 0)"

definition oiZScore :: "stats \<Rightarrow> grouped_opt \<Rightarrow> real" where
  "oiZScore st opt =
     (if stdOI st > 0 \<and> open_interest opt > 0
      then \<bar>(open_interest opt - avgOI st) / stdOI st\<bar> else 0)"

text \<open>The division is the real one: it is the program's for every window whose upper
  end is not zero.\<close>

definition timeDecayFactor :: "thresholds \<Rightarrow> real \<Rightarrow> real" where
  "timeDecayFactor th tte = (maxTimeToExpiry th - tte) / maxTimeToExpiry th"

definition anomalyScore :: "thresholds \<Rightarrow> real \<Rightarrow> real \<Rightarrow> real \<Rightarrow> real \<Rightarrow> real" where
  "anomalyScore th pz vz oz td =
     (pz * priceWeight th) + (vz * volumeWeight th) + (oz * oiWeight th) + (td * 2.0)"

text \<open>The number that the text \<open>x.toFixed(f)\<close> denotes, which is what the subtraction in
  the sort comparator reads back: \<open>x\<close> rounded to \<open>f\<close> decimals, halves away from zero;
  from \<open>1e21\<close> on the text is that of the number itself.\<close>

definition toFixed :: "nat \<Rightarrow> real \<Rightarrow> real" where
  "toFixed f x =
     (if \<bar>x\<bar> \<ge> 10 ^ 21 then x
      else (if x < 0 then - 1 else 1) * real_of_int \<lfloor>\<bar>x\<bar> * 10 ^ f + 1 / 2\<rfloor> / 10 ^ f)"

datatype alert_type = PRICE_ANOMALY | VOLUME_ANOMALY

text \<open>An alert of the live monitor. The five formatted fields hold the numbers their
  texts denote; the wall-clock \<open>timestamp\<close> text is left out.\<close>

record alert =
  alert_symbol :: string
  alert_expiryDate :: string
  alert_currentPrice :: real
  alert_volume :: real
  alert_openInterest :: real
  alert_timeToExpiry :: real
  alert_anomalyScore :: real
  alert_priceZScore :: real
  alert_volumeZScore :: real
  alert_oiZScore :: real
  alert_timeDecayFactor :: real
  alert_type :: alert_type

text \<open>The body of the inner \<open>forEach\<close>: the alerts (none or one) pushed for one quote.\<close>

definition score_opt :: "thresholds \<Rightarrow> string \<Rightarrow> stats \<Rightarrow> grouped_opt \<Rightarrow> alert list" where
  "score_opt th expiry st opt =
     (if mark_price opt \<le> 0 then []
      else (let pz = priceZScore st opt; vz = volumeZScore st opt; oz = oiZScore st opt;
                td = timeDecayFactor th (timeToExpiry opt);
                score = anomalyScore th pz vz oz td
            in if score \<ge> anomalyScoreThreshold th then
                 [\<lparr>alert_symbol = instrument_name opt, alert_expiryDate = expiry,
                   alert_currentPrice = mark_price opt, alert_volume = volume_usd opt,
                   alert_openInterest = open_interest opt,
                   alert_timeToExpiry = toFixed 1 (timeToExpiry opt),
                   alert_anomalyScore = toFixed 2 score,
                   alert_priceZScore = toFixed 2 pz, alert_volumeZScore = toFixed 2 vz,
                   alert_oiZScore = toFixed 2 oz, alert_timeDecayFactor = toFixed 2 td,
                   alert_type = (if pz > vz then PRICE_ANOMALY else VOLUME_ANOMALY)\<rparr>]
               else []))"

text \<open>The array \<open>alerts\<close> as the two nested loops leave it, before it is sorted.\<close>

definition pushed_alerts ::
  "thresholds \<Rightarrow> (string \<times> grouped_opt list) list \<Rightarrow> (string \<times> stats) list \<Rightarrow> alert list" where
  "pushed_alerts th expiryGroups expiryStats =
     concat (map (\<lambda>(expiry, opts).
               case map_of expiryStats expiry of
                 None \<Rightarrow> []
               | Some st \<Rightarrow> concat (map (score_opt th expiry st) opts))
             expiryGroups)"

text \<open>\<open>alerts.sort((a, b) => b.anomalyScore - a.anomalyScore)\<close>: \<open>Array.prototype.sort\<close>
  is stable, and so is the insertion sort \<open>sort_key\<close>.\<close>

definition detectHighProbabilityAlerts ::
  "thresholds \<Rightarrow> (string \<times> grouped_opt list) list \<Rightarrow> (string \<times> stats) list \<Rightarrow> alert list" where
  "detectHighProbabilityAlerts th expiryGroups expiryStats =
     sort_key (\<lambda>a. - alert_anomalyScore a) (pushed_alerts th expiryGroups expiryStats)"

section \<open>The cooldown state (state.js)\<close>

record history_entry =
  expiryDate :: string
  alertCount :: nat
  sentAt :: int

text \<open>The module state, without the monitor status that no function below reads.\<close>

record state =
  lastAlertTime :: "string \<Rightarrow> int option"
  alertHistory :: "history_entry list"

text \<open>\<open>shouldSendAlert(expiryDate)\<close>, with the environment variable
  \<open>ALERT_COOLDOWN_HOURS\<close> (\<open>None\<close> when unset), the module state and \<open>Date.now()\<close> as
  arguments. \<open>x || '6'\<close> is \<open>'6'\<close> for an unset or empty variable, \<open>!lastAlert\<close> holds
  for a missing entry and for the instant \<open>0\<close>, and a comparison with \<open>NaN\<close> is false.\<close>

definition cooldownHours :: "string option \<Rightarrow> jsnum" where
  "cooldownHours env =
     parseInt (case env of None \<Rightarrow> ''6'' | Some v \<Rightarrow> if v = [] then ''6'' else v)"

definition shouldSendAlert :: "string option \<Rightarrow> state \<Rightarrow> int \<Rightarrow> string \<Rightarrow> bool" where
  "shouldSendAlert env st now expiry =
     (let lastAlert = lastAlertTime st expiry
      in case lastAlert of
           None \<Rightarrow> True
         | Some t \<Rightarrow>
             if t = 0 then True
             else (let hoursSinceLastAlert = real_of_int (now - t) / (1000 * 60 * 60)
                   in case cooldownHours env of
                        NaN \<Rightarrow> False
                      | Num c \<Rightarrow> hoursSinceLastAlert \<ge> real_of_int c))"

definition recordAlertSent :: "state \<Rightarrow> int \<Rightarrow> string \<Rightarrow> 'a list \<Rightarrow> state" where
  "recordAlertSent st now expiry alerts =
     (let h = alertHistory st
                @ [\<lparr>expiryDate = expiry, alertCount = length alerts, sentAt = now\<rparr>]
      in \<lparr>lastAlertTime = (lastAlertTime st)(expiry \<mapsto> now),
          alertHistory = (if length h > 100 then tl h else h)\<rparr>)"


section \<open>The backtester (backtester.js)\<close>

text \<open>An entry of a stored snapshot, as \<open>collectMarketSnapshot\<close> builds it;
  \<open>getTimeToExpiry\<close> gives \<open>null\<close> for a symbol with no truthy expiry.\<close>

record snapshot_opt =
  instrument :: string
  markPrice :: real
  volume :: real
  openInterest :: real
  opt_timeToExpiry :: "real option"

definition getTimeToExpiry :: "string \<Rightarrow> int \<Rightarrow> real option" where
  "getTimeToExpiry instrumentName currentTimestamp =
     (let parsed = parseExpiryTimestamp instrumentName
      in if \<not> truthy parsed then None
         else (case parsed of
                 Some (Num ts) \<Rightarrow>
                   Some (max 0 (real_of_int (ts - currentTimestamp) / (1000 * 60 * 60)))
               | _ \<Rightarrow> None))"


text \<open>A data point \<open>{...snapshot, futureETHPrice}\<close>; the future price may be absent.\<close>

record dataPoint =
  timestamp :: int
  ethPrice :: real
  options :: "snapshot_opt list"
  futureETHPrice :: "real option"

record expiry_stats =
  bt_avgPrice :: real
  bt_avgVolume :: real
  bt_avgOI :: real
  bt_stdPrice :: real
  bt_stdVolume :: real
  bt_count :: nat

definition Backtester_calculateStdDev :: "real list \<Rightarrow> real" where
  "Backtester_calculateStdDev vs =
     (if length vs = 0 then 0
      else (let avg = reduce_sum vs / real (length vs);
                squareDiffs = map (\<lambda>v. (v - avg) ^ 2) vs;
                avgSquareDiff = reduce_sum squareDiffs / real (length vs)
            in sqrt avgSquareDiff))"

text \<open>The body of the first \<open>forEach\<close> of \<open>calculateExpiryStats\<close>.\<close>

definition Backtester_group_step ::
  "(string \<times> snapshot_opt list) list \<Rightarrow> snapshot_opt \<Rightarrow> (string \<times> snapshot_opt list) list" where
  "Backtester_group_step expiryGroups opt =
     (let parsed = parseExpiryTimestamp (instrument opt)
      in if \<not> truthy parsed then expiryGroups
         else (case parsed of
                 Some (Num ts) \<Rightarrow> group_push (expiryKey ts) opt expiryGroups
               | _ \<Rightarrow> expiryGroups))"

text \<open>The body of the second \<open>forEach\<close>; this object has no \<open>stdOI\<close>.\<close>

definition Backtester_cohort_stats :: "snapshot_opt list \<Rightarrow> expiry_stats option" where
  "Backtester_cohort_stats opts =
     (let validPrices = map markPrice (filter (\<lambda>x. markPrice x > 0) opts);
          validVolumes = map volume (filter (\<lambda>x. volume x > 0) opts);
          validOI = map openInterest (filter (\<lambda>x. openInterest x > 0) opts)
      in if length validPrices > 0 then
           Some \<lparr>bt_avgPrice = reduce_sum validPrices / real (length validPrices),
                 bt_avgVolume = (if length validVolumes > 0
                    then reduce_sum validVolumes / real (length validVolumes) else 0),
                 bt_avgOI = (if length validOI > 0
                    then reduce_sum validOI / real (length validOI) else 0),
                 bt_stdPrice = Backtester_calculateStdDev validPrices,
                 bt_stdVolume = (if length validVolumes > 0
                    then Backtester_calculateStdDev validVolumes else 0),
                 bt_count = length opts\<rparr>
         else None)"

definition Backtester_calculateExpiryStats :: "snapshot_opt list \<Rightarrow> (string \<times> expiry_stats) list" where
  "Backtester_calculateExpiryStats opts =
     (let expiryGroups = foldl Backtester_group_step [] opts
      in concat (map (\<lambda>(expiry, grp).
                   case Backtester_cohort_stats grp of None \<Rightarrow> [] | Some st \<Rightarrow> [(expiry, st)])
                 expiryGroups))"

subsection \<open>The backtesting scorer\<close>

text \<open>The local constants of \<open>detectAnomalies\<close>. \<open>x || 1\<close> is \<open>1\<close> for the falsy \<open>0\<close>
  and \<open>x\<close> otherwise; \<open>opt.timeToExpiry || 0\<close> is \<open>0\<close> for \<open>null\<close>.\<close>

definition or_one :: "real \<Rightarrow> real" where
  "or_one x = (if x = 0 then 1 else x)"

definition Backtester_priceZScore :: "expiry_stats \<Rightarrow> snapshot_opt \<Rightarrow> real" where
  "Backtester_priceZScore st opt = (markPrice opt - bt_avgPrice st) / or_one (bt_stdPrice st)"

definition Backtester_volumeZScore :: "expiry_stats \<Rightarrow> snapshot_opt \<Rightarrow> real" where
  "Backtester_volumeZScore st opt =
     (if bt_avgVolume st > 0
      then (volume opt - bt_avgVolume st) / or_one (bt_stdVolume st) else 0)"

definition Backtester_oiZScore :: "expiry_stats \<Rightarrow> snapshot_opt \<Rightarrow> real" where
  "Backtester_oiZScore st opt =
     (if bt_avgOI st > 0 then (openInterest opt - bt_avgOI st) / 1 else 0)"

definition Backtester_timeToExpiry :: "snapshot_opt \<Rightarrow> real" where
  "Backtester_timeToExpiry opt = (case opt_timeToExpiry opt of None \<Rightarrow> 0 | Some t \<Rightarrow> t)"

definition Backtester_timeDecayFactor :: "real \<Rightarrow> real" where
  "Backtester_timeDecayFactor tte = (if tte \<le> 48 then (48 - tte) / 48 else 0)"

definition Backtester_anomalyScore ::
  "real \<Rightarrow> real \<Rightarrow> real \<Rightarrow> real \<Rightarrow> real \<Rightarrow> real \<Rightarrow> real \<Rightarrow> real" where
  "Backtester_anomalyScore priceThreshold volumeThreshold oiThreshold pz vz oz td =
     (\<bar>pz\<bar> * priceThreshold) + (\<bar>vz\<bar> * volumeThreshold) + (\<bar>oz\<bar> * oiThreshold) + (td * 2)"

record bt_alert =
  bt_instrument :: string
  bt_anomalyScore :: real
  bt_priceZScore :: real
  bt_volumeZScore :: real
  bt_oiZScore :: real
  bt_timeToExpiry :: real
  bt_timeDecayFactor :: real

text \<open>The body of the \<open>forEach\<close> of \<open>detectAnomalies\<close>: the alerts pushed for one entry.\<close>

definition Backtester_score_opt ::
  "(string \<times> expiry_stats) list \<Rightarrow> real \<Rightarrow> real \<Rightarrow> real \<Rightarrow> snapshot_opt \<Rightarrow> bt_alert list" where
  "Backtester_score_opt expiryStats priceThreshold volumeThreshold oiThreshold opt =
     (let parsed = parseExpiryTimestamp (instrument opt)
      in if \<not> truthy parsed then []
         else (case parsed of
                 Some (Num ts) \<Rightarrow>
                   (case map_of expiryStats (expiryKey ts) of
                      None \<Rightarrow> []
                    | Some st \<Rightarrow>
                        if markPrice opt \<le> 0 then []
                        else (let pz = Backtester_priceZScore st opt;
                                  vz = Backtester_volumeZScore st opt;
                                  oz = Backtester_oiZScore st opt;
                                  tte = Backtester_timeToExpiry opt;
                                  td = Backtester_timeDecayFactor tte;
                                  score = Backtester_anomalyScore
                                            priceThreshold volumeThreshold oiThreshold pz vz oz td
                              in if score \<ge> 5.0 then
                                   [\<lparr>bt_instrument = instrument opt, bt_anomalyScore = score,
                                     bt_priceZScore = pz, bt_volumeZScore = vz, bt_oiZScore = oz,
                                     bt_timeToExpiry = tte, bt_timeDecayFactor = td\<rparr>]
                                 else []))
               | _ \<Rightarrow> []))"

definition Backtester_pushed_alerts ::
  "snapshot_opt list \<Rightarrow> (string \<times> expiry_stats) list \<Rightarrow> real \<Rightarrow> real \<Rightarrow> real \<Rightarrow> bt_alert list" where
  "Backtester_pushed_alerts opts expiryStats priceThreshold volumeThreshold oiThreshold =
     concat (map (Backtester_score_opt expiryStats priceThreshold volumeThreshold oiThreshold) opts)"

definition Backtester_detectAnomalies ::
  "snapshot_opt list \<Rightarrow> (string \<times> expiry_stats) list \<Rightarrow> real \<Rightarrow> real \<Rightarrow> real \<Rightarrow> bt_alert list" where
  "Backtester_detectAnomalies opts expiryStats priceThreshold volumeThreshold oiThreshold =
     sort_key (\<lambda>a. - bt_anomalyScore a)
       (Backtester_pushed_alerts opts expiryStats priceThreshold volumeThreshold oiThreshold)"


subsection \<open>The backtest pass and the grid search\<close>

text \<open>\<open>Math.abs(((futureETHPrice - ethPrice) / ethPrice) * 100) >= 2.0\<close>. A division
  by zero gives an infinity for a dividend that is not zero, which passes the test, and
  \<open>NaN\<close> for \<open>0 / 0\<close>, which does not.\<close>

definition significantMove :: "real \<Rightarrow> real \<Rightarrow> bool" where
  "significantMove future eth =
     (if eth = 0 then future \<noteq> 0
      else \<bar>((future - eth) / eth) * 100\<bar> \<ge> 2.0)"

text \<open>The body of the \<open>forEach\<close> of \<open>runBacktest\<close>, on the three counters
  \<open>(totalAlerts, successful, falsePositives)\<close>. \<open>!futureETHPrice\<close> holds for an absent
  price and for \<open>0\<close>.\<close>

definition backtest_step ::
  "real \<Rightarrow> real \<Rightarrow> real \<Rightarrow> nat \<times> nat \<times> nat \<Rightarrow> dataPoint \<Rightarrow> nat \<times> nat \<times> nat" where
  "backtest_step priceThreshold volumeThreshold oiThreshold c dp =
     (case c of (n_total, n_succ, n_false) \<Rightarrow>
        (case futureETHPrice dp of
           None \<Rightarrow> c
         | Some future \<Rightarrow>
             if future = 0 then c
             else (let expiryStats = Backtester_calculateExpiryStats (options dp);
                       alerts = Backtester_detectAnomalies (options dp) expiryStats
                                  priceThreshold volumeThreshold oiThreshold
                   in if length alerts > 0 then
                        (if significantMove future (ethPrice dp)
                         then (n_total + 1, n_succ + 1, n_false)
                         else (n_total + 1, n_succ, n_false + 1))
                      else c)))"

record backtest_result =
  totalAlerts :: nat
  successful :: nat
  falsePositives :: nat
  successRate :: real
  precision :: real

definition runBacktest :: "dataPoint list \<Rightarrow> real \<Rightarrow> real \<Rightarrow> real \<Rightarrow> backtest_result" where
  "runBacktest historicalData priceThreshold volumeThreshold oiThreshold =
     (case foldl (backtest_step priceThreshold volumeThreshold oiThreshold) (0, 0, 0)
             historicalData of
        (n_total, n_succ, n_false) \<Rightarrow>
          \<lparr>totalAlerts = n_total, successful = n_succ, falsePositives = n_false,
           successRate = (if n_total > 0 then (real n_succ / real n_total) * 100 else 0),
           precision = (if n_total > 0 then real n_succ / real n_total else 0)\<rparr>)"

text \<open>An entry of the grid: the three weights and the spread result.\<close>

record grid_result = backtest_result +
  priceThreshold :: real
  volumeThreshold :: real
  oiThreshold :: real

definition testThresholds ::
  "dataPoint list \<Rightarrow> real list \<Rightarrow> real list \<Rightarrow> real list \<Rightarrow> grid_result list" where
  "testThresholds historicalData priceThresholds volumeThresholds oiThresholds =
     sort_key (\<lambda>r. - successRate r)
       (concat (map (\<lambda>priceT.
          concat (map (\<lambda>volumeT.
            map (\<lambda>oiT.
              backtest_result.extend (runBacktest historicalData priceT volumeT oiT)
                \<lparr>priceThreshold = priceT, volumeThreshold = volumeT, oiThreshold = oiT\<rparr>)
              oiThresholds)
            volumeThresholds))
          priceThresholds))"

text \<open>\<open>results[0]\<close>: \<open>undefined\<close> for an empty array.\<close>

definition first_result :: "grid_result list \<Rightarrow> grid_result option" where
  "first_result results = (case results of [] \<Rightarrow> None | r # _ \<Rightarrow> Some r)"

definition findOptimalThresholds :: "dataPoint list \<Rightarrow> grid_result option" where
  "findOptimalThresholds historicalData =
     first_result (testThresholds historicalData
       [0.5, 1.0, 1.5, 2.0, 2.5, 3.0] [0.5, 1.0, 1.5, 2.0, 2.5] [0.3, 0.5, 0.7, 1.0])"

definition generateRecommendation :: "grid_result \<Rightarrow> string" where
  "generateRecommendation optimal =
     (if successRate optimal \<ge> 70 then
        ''EXCELLENT: High success rate. Deploy with confidence.''
      else if successRate optimal \<ge> 50 then
        ''GOOD: Moderate success rate. Consider collecting more data.''
      else if successRate optimal \<ge> 30 then
        ''FAIR: Low success rate. Refine criteria or collect more data.''
      else ''POOR: Very low success rate. Criteria need significant refinement.'')"

record report =
  optimal_price :: real
  optimal_volume :: real
  optimal_openInterest :: real
  perf_successRate :: real
  perf_precision :: real
  perf_totalAlerts :: nat
  perf_successful :: nat
  perf_falsePositives :: nat
  dataPoints :: nat
  recommendation :: string

datatype js_error = TypeError

text \<open>The object \<open>generateReport\<close> builds from the best entry; reading a property of
  \<open>undefined\<close> throws.\<close>

definition report_of :: "dataPoint list \<Rightarrow> grid_result option \<Rightarrow> js_error + report" where
  "report_of historicalData best =
     (case best of
        None \<Rightarrow> Inl TypeError
      | Some optimal \<Rightarrow>
          Inr \<lparr>optimal_price = priceThreshold optimal,
               optimal_volume = volumeThreshold optimal,
               optimal_openInterest = oiThreshold optimal,
               perf_successRate = successRate optimal,
               perf_precision = precision optimal,
               perf_totalAlerts = totalAlerts optimal,
               perf_successful = successful optimal,
               perf_falsePositives = falsePositives optimal,
               dataPoints = length historicalData,
               recommendation = generateRecommendation optimal\<rparr>)"

definition generateReport :: "dataPoint list \<Rightarrow> js_error + report" where
  "generateReport historicalData = report_of historicalData (findOptimalThresholds historicalData)"


section \<open>Notions of the specification\<close>


text \<open>The decimal text of a natural number, as a cooldown of whole hours is configured;
  a setting with a fraction is such a text followed by a point and further digits.\<close>

function decimal :: "nat \<Rightarrow> string" where
  "decimal n = (if n < 10 then [digit_char (int n)]
                else decimal (n div 10) @ [digit_char (int (n mod 10))])"
  by pat_completeness auto
termination
  by (relation "measure id") auto

declare decimal.simps [simp del]

text \<open>The composite score of a quote under the statistics of its cohort: the constant
  \<open>anomalyScore\<close> of either scorer, before any formatting.\<close>

definition composite_score :: "thresholds \<Rightarrow> stats \<Rightarrow> grouped_opt \<Rightarrow> real" where
  "composite_score th st opt =
     anomalyScore th (priceZScore st opt) (volumeZScore st opt) (oiZScore st opt)
       (timeDecayFactor th (timeToExpiry opt))"

definition Backtester_composite_score ::
  "real \<Rightarrow> real \<Rightarrow> real \<Rightarrow> expiry_stats \<Rightarrow> snapshot_opt \<Rightarrow> real" where
  "Backtester_composite_score p v oi st e =
     Backtester_anomalyScore p v oi (Backtester_priceZScore st e) (Backtester_volumeZScore st e)
       (Backtester_oiZScore st e) (Backtester_timeDecayFactor (Backtester_timeToExpiry e))"

text \<open>The alerts a sample produces under candidate weights: the scorer run on the
  sample's entries with the statistics of the same entries.\<close>

definition sample_alerts :: "real \<Rightarrow> real \<Rightarrow> real \<Rightarrow> dataPoint \<Rightarrow> bt_alert list" where
  "sample_alerts p v oi dp =
     Backtester_detectAnomalies (options dp) (Backtester_calculateExpiryStats (options dp)) p v oi"

text \<open>The three counters of a pass, and their sum by components.\<close>

definition tally :: "real \<Rightarrow> real \<Rightarrow> real \<Rightarrow> dataPoint list \<Rightarrow> nat \<times> nat \<times> nat" where
  "tally p v oi h = foldl (backtest_step p v oi) (0, 0, 0) h"

fun add3 :: "nat \<times> nat \<times> nat \<Rightarrow> nat \<times> nat \<times> nat \<Rightarrow> nat \<times> nat \<times> nat" where
  "add3 (a, b, c) (a', b', c') = (a + a', b + b', c + c')"

text \<open>Entry \<open>x\<close> lies in the group of key \<open>k\<close>.\<close>

definition in_group :: "string \<Rightarrow> 'a \<Rightarrow> (string \<times> 'a list) list \<Rightarrow> bool" where
  "in_group k x g = (case map_of g k of None \<Rightarrow> False | Some grp \<Rightarrow> x \<in> set grp)"


section \<open>Concrete inputs\<close>

text \<open>One hour before the expiry of 7 November 2025, and a feed with one quote of that
  expiry.\<close>

definition now_6NOV :: int where
  "now_6NOV = 1762498800000"

definition quote_A :: option_quote where
  "quote_A = \<lparr>instrument_name = ''ETH-7NOV25-3300-C'', mark_price = 1, volume_usd = 5,
               open_interest = 100\<rparr>"

definition grouped_A :: grouped_opt where
  "grouped_A = option_quote.extend quote_A \<lparr>timeToExpiry = 1, expiryTimestamp = 1762502400000\<rparr>"

text \<open>A stored snapshot of two entries of that expiry, whose open interests 100 and 200
  lie 50 from their mean, and the statistics of the two.\<close>

definition entry_C :: snapshot_opt where
  "entry_C = \<lparr>instrument = ''ETH-7NOV25-3300-C'', markPrice = 1, volume = 5,
               openInterest = 100, opt_timeToExpiry = Some 1\<rparr>"

definition entry_P :: snapshot_opt where
  "entry_P = \<lparr>instrument = ''ETH-7NOV25-3300-P'', markPrice = 1, volume = 5,
               openInterest = 200, opt_timeToExpiry = Some 1\<rparr>"

definition stats_CP :: expiry_stats where
  "stats_CP = \<lparr>bt_avgPrice = 1, bt_avgVolume = 5, bt_avgOI = 150, bt_stdPrice = 0,
                bt_stdVolume = 0, bt_count = 2\<rparr>"

text \<open>Samples with that snapshot: a move of 10 percent, a move of 1 percent, a future
  price of 0, an absent future price; and a sample with no entries.\<close>

definition sample_with :: "real option \<Rightarrow> dataPoint" where
  "sample_with future = \<lparr>timestamp = 1762498800000, ethPrice = 100,
                           options = [entry_C, entry_P], futureETHPrice = future\<rparr>"

definition sample_move :: dataPoint where
  "sample_move = sample_with (Some 110)"

definition sample_flat :: dataPoint where
  "sample_flat = sample_with (Some 101)"

definition sample_zero_future :: dataPoint where
  "sample_zero_future = sample_with (Some 0)"

definition sample_absent :: dataPoint where
  "sample_absent = sample_with None"

definition sample_quiet :: dataPoint where
  "sample_quiet = \<lparr>timestamp = 1762498800000, ethPrice = 100, options = [],
                    futureETHPrice = Some 110\<rparr>"

text \<open>A symbol with a month and a year but no day, in a feed entry and in a stored
  entry.\<close>

definition quote_no_day :: option_quote where
  "quote_no_day = \<lparr>instrument_name = ''ETH-NOV25-3300-C'', mark_price = 1, volume_usd = 5,
                    open_interest = 100\<rparr>"

definition entry_no_day :: snapshot_opt where
  "entry_no_day = \<lparr>instrument = ''ETH-NOV25-3300-C'', markPrice = 1, volume = 5,
                    openInterest = 100, opt_timeToExpiry = None\<rparr>"

text \<open>Cohorts of the live monitor: volumes 1, 3 and 0 (mean 2 and deviation 1 over the
  positive ones), and a single quote with no volume and no open interest.\<close>

definition grouped_vol :: "real \<Rightarrow> grouped_opt" where
  "grouped_vol vol = grouped_A\<lparr>volume_usd := vol\<rparr>"

definition cohort_L :: "grouped_opt list" where
  "cohort_L = [grouped_vol 1, grouped_vol 3, grouped_vol 0]"

definition stats_L :: stats where
  "stats_L = \<lparr>avgPrice = 1, avgVolume = 2, avgOI = 100, stdPrice = 0, stdVolume = 1,
               stdOI = 0, count = 3\<rparr>"

definition grouped_idle :: grouped_opt where
  "grouped_idle = grouped_A\<lparr>volume_usd := 0, open_interest := 0\<rparr>"

definition stats_idle :: stats where
  "stats_idle = \<lparr>avgPrice = 1, avgVolume = 0, avgOI = 0, stdPrice = 0, stdVolume = 0,
                  stdOI = 0, count = 1\<rparr>"

text \<open>Cohorts of the backtester: volumes 5, 5 and 0 (deviation 0 over the positive ones),
  volumes 1 and 3 (mean 2, deviation 1), and a single entry with no volume and no open
  interest.\<close>

definition entry_vol :: "real \<Rightarrow> snapshot_opt" where
  "entry_vol vol = entry_C\<lparr>volume := vol\<rparr>"

definition cohort_B :: "snapshot_opt list" where
  "cohort_B = [entry_vol 5, entry_vol 5, entry_vol 0]"

definition stats_B :: expiry_stats where
  "stats_B = \<lparr>bt_avgPrice = 1, bt_avgVolume = 5, bt_avgOI = 100, bt_stdPrice = 0,
               bt_stdVolume = 0, bt_count = 3\<rparr>"

definition cohort_B13 :: "snapshot_opt list" where
  "cohort_B13 = [entry_vol 1, entry_vol 3]"

definition stats_B13 :: expiry_stats where
  "stats_B13 = \<lparr>bt_avgPrice = 1, bt_avgVolume = 2, bt_avgOI = 100, bt_stdPrice = 0,
                 bt_stdVolume = 1, bt_count = 2\<rparr>"

definition entry_idle :: snapshot_opt where
  "entry_idle = entry_C\<lparr>volume := 0, openInterest := 0\<rparr>"

definition stats_B_idle :: expiry_stats where
  "stats_B_idle = \<lparr>bt_avgPrice = 1, bt_avgVolume = 0, bt_avgOI = 0, bt_stdPrice = 0,
                    bt_stdVolume = 0, bt_count = 1\<rparr>"

text \<open>A feed of ten quotes of that expiry, one hour before it: two quotes priced 6 among
  eight priced 1 (mean 2, deviation 2), with volumes 510 and 511 among four of 345 and
  four of 655 (mean 502.1, deviation 138.7); the cohort they form and its statistics.\<close>

definition feed_quote :: "string \<Rightarrow> real \<Rightarrow> real \<Rightarrow> option_quote" where
  "feed_quote strike price vol =
     \<lparr>instrument_name = ''ETH-7NOV25-'' @ strike @ ''-C'', mark_price = price,
      volume_usd = vol, open_interest = 100\<rparr>"

definition feed_T :: "option_quote list" where
  "feed_T = [feed_quote ''3000'' 6 510, feed_quote ''3100'' 6 511,
             feed_quote ''3200'' 1 345, feed_quote ''3300'' 1 345,
             feed_quote ''3400'' 1 345, feed_quote ''3500'' 1 345,
             feed_quote ''3600'' 1 655, feed_quote ''3700'' 1 655,
             feed_quote ''3800'' 1 655, feed_quote ''3900'' 1 655]"

definition in_cohort :: "option_quote \<Rightarrow> grouped_opt" where
  "in_cohort q = option_quote.extend q \<lparr>timeToExpiry = 1, expiryTimestamp = 1762502400000\<rparr>"

definition stats_T :: stats where
  "stats_T = \<lparr>avgPrice = 2, avgVolume = 5021 / 10, avgOI = 100, stdPrice = 2,
               stdVolume = 1387 / 10, stdOI = 0, count = 10\<rparr>"

text \<open>The module state at start-up.\<close>

definition initial_state :: state where
  "initial_state = \<lparr>lastAlertTime = Map.empty, alertHistory = []\<rparr>"

section \<open>Verified properties\<close>

subsection \<open>Helper facts\<close>



lemma parse_quote_A: "parseExpiryTimestamp ''ETH-7NOV25-3300-C'' = Some (Num 1762502400000)"
  by code_simp

lemma key_quote_A: "expiryKey 1762502400000 = ''2025-11-07''"
  by code_simp






lemma parse_entry_P: "parseExpiryTimestamp ''ETH-7NOV25-3300-P'' = Some (Num 1762502400000)"
  by code_simp

lemma stats_entries_CP:
  "Backtester_calculateExpiryStats [entry_C, entry_P] = [(''2025-11-07'', stats_CP)]"
  by (simp add: Backtester_calculateExpiryStats_def Backtester_group_step_def Let_def
      entry_C_def entry_P_def parse_quote_A parse_entry_P key_quote_A
      Backtester_cohort_stats_def reduce_sum_def Backtester_calculateStdDev_def stats_CP_def)

lemma pushed_entries_CP:
  "Backtester_pushed_alerts [entry_C, entry_P] [(''2025-11-07'', stats_CP)] 1 1 1
   = [\<lparr>bt_instrument = ''ETH-7NOV25-3300-C'', bt_anomalyScore = 50 + 47 / 24,
        bt_priceZScore = 0, bt_volumeZScore = 0, bt_oiZScore = - 50, bt_timeToExpiry = 1,
        bt_timeDecayFactor = 47 / 48\<rparr>,
      \<lparr>bt_instrument = ''ETH-7NOV25-3300-P'', bt_anomalyScore = 50 + 47 / 24,
        bt_priceZScore = 0, bt_volumeZScore = 0, bt_oiZScore = 50, bt_timeToExpiry = 1,
        bt_timeDecayFactor = 47 / 48\<rparr>]"
  by (simp add: Backtester_pushed_alerts_def Backtester_score_opt_def Let_def
      entry_C_def entry_P_def parse_quote_A parse_entry_P key_quote_A stats_CP_def
      Backtester_priceZScore_def Backtester_volumeZScore_def Backtester_oiZScore_def
      Backtester_timeToExpiry_def Backtester_timeDecayFactor_def Backtester_anomalyScore_def
      or_one_def)

text \<open>The snapshot of two entries produces two alerts under the weights 1, 1, 1.\<close>

lemma sample_with_alerts: "length (sample_alerts 1 1 1 (sample_with future)) = 2"
  by (simp add: sample_alerts_def sample_with_def stats_entries_CP
      Backtester_detectAnomalies_def pushed_entries_CP)

lemma sample_quiet_alerts: "sample_alerts p v oi sample_quiet = []"
  by (simp add: sample_alerts_def sample_quiet_def Backtester_detectAnomalies_def
      Backtester_pushed_alerts_def)

lemma add3_assoc: "add3 (add3 x y) z = add3 x (add3 y z)"
  by (cases x; cases y; cases z) simp

lemma add3_zero: "add3 x (0, 0, 0) = x"
  by (cases x) simp

lemma step_add3: "backtest_step p v oi c dp = add3 c (backtest_step p v oi (0, 0, 0) dp)"
  by (cases c) (simp add: backtest_step_def Let_def split: option.splits)

lemma foldl_step_add3:
  "foldl (backtest_step p v oi) c h = add3 c (foldl (backtest_step p v oi) (0, 0, 0) h)"
proof (induction h arbitrary: c)
  case Nil
  show ?case by (simp add: add3_zero)
next
  case (Cons x h)
  have "foldl (backtest_step p v oi) c (x # h)
          = add3 (backtest_step p v oi c x) (foldl (backtest_step p v oi) (0, 0, 0) h)"
    by (simp add: Cons.IH[of "backtest_step p v oi c x"])
  also have "\<dots> = add3 c (add3 (backtest_step p v oi (0, 0, 0) x)
                               (foldl (backtest_step p v oi) (0, 0, 0) h))"
    by (subst step_add3) (simp add: add3_assoc)
  also have "\<dots> = add3 c (foldl (backtest_step p v oi) (0, 0, 0) (x # h))"
    by (simp add: Cons.IH[of "backtest_step p v oi (0, 0, 0) x"])
  finally show ?case .
qed

lemma tally_insert:
  "tally p v oi (xs @ dp # ys)
     = add3 (tally p v oi xs) (add3 (backtest_step p v oi (0, 0, 0) dp) (tally p v oi ys))"
proof -
  have "tally p v oi (xs @ dp # ys)
          = foldl (backtest_step p v oi) (backtest_step p v oi (tally p v oi xs) dp) ys"
    by (simp add: tally_def)
  also have "\<dots> = add3 (backtest_step p v oi (tally p v oi xs) dp) (tally p v oi ys)"
    unfolding tally_def by (rule foldl_step_add3)
  also have "\<dots> = add3 (tally p v oi xs)
                       (add3 (backtest_step p v oi (0, 0, 0) dp) (tally p v oi ys))"
    by (subst step_add3) (simp add: add3_assoc)
  finally show ?thesis .
qed

lemma tally_append: "tally p v oi (xs @ ys) = add3 (tally p v oi xs) (tally p v oi ys)"
  unfolding tally_def foldl_append by (rule foldl_step_add3)

lemma run_fields:
  "totalAlerts (runBacktest h p v oi) = fst (tally p v oi h)"
  "successful (runBacktest h p v oi) = fst (snd (tally p v oi h))"
  "falsePositives (runBacktest h p v oi) = snd (snd (tally p v oi h))"
  by (simp_all add: runBacktest_def tally_def split: prod.splits)

lemma run_rates:
  "successRate (runBacktest h p v oi) =
     (if totalAlerts (runBacktest h p v oi) = 0 then 0
      else real (successful (runBacktest h p v oi))
             / real (totalAlerts (runBacktest h p v oi)) * 100)"
  "precision (runBacktest h p v oi) =
     (if totalAlerts (runBacktest h p v oi) = 0 then 0
      else real (successful (runBacktest h p v oi))
             / real (totalAlerts (runBacktest h p v oi)))"
  by (simp_all add: runBacktest_def split: prod.splits)

lemma step_zero_cases:
  "backtest_step p v oi (0, 0, 0) dp =
    (case futureETHPrice dp of None \<Rightarrow> (0, 0, 0)
     | Some f \<Rightarrow> if f = 0 then (0, 0, 0)
        else if sample_alerts p v oi dp = [] then (0, 0, 0)
        else if significantMove f (ethPrice dp) then (1, 1, 0) else (1, 0, 1))"
  by (simp add: backtest_step_def sample_alerts_def Let_def split: option.splits)

lemma run_empty:
  "runBacktest [] p v oi = \<lparr>totalAlerts = 0, successful = 0, falsePositives = 0,
                            successRate = 0, precision = 0\<rparr>"
  by (simp add: runBacktest_def)

lemma significantMove_positive:
  assumes "0 < e"
  shows "significantMove f e \<longleftrightarrow> \<bar>f - e\<bar> / e \<ge> 0.02"
proof -
  define x where "x = \<bar>f - e\<bar> / e"
  have ne: "e \<noteq> 0"
    using assms by simp
  have "\<bar>((f - e) / e) * 100\<bar> = \<bar>(f - e) / e\<bar> * \<bar>100\<bar>"
    by (rule abs_mult)
  also have "\<bar>(f - e) / e\<bar> = \<bar>f - e\<bar> / \<bar>e\<bar>"
    by (rule abs_divide)
  also have "\<bar>e\<bar> = e"
    using assms by simp
  finally have eq: "\<bar>((f - e) / e) * 100\<bar> = x * 100"
    by (simp add: x_def)
  have "significantMove f e \<longleftrightarrow> \<bar>((f - e) / e) * 100\<bar> \<ge> 2.0"
    unfolding significantMove_def using ne by (simp only: if_False)
  also have "\<dots> \<longleftrightarrow> x * 100 \<ge> 2.0"
    by (simp only: eq)
  also have "\<dots> \<longleftrightarrow> x \<ge> 0.02"
    by (simp add: mult.commute)
  finally show ?thesis
    by (simp only: x_def)
qed

lemma testThresholds_set:
  "r \<in> set (testThresholds h ps vs os) \<Longrightarrow>
     \<exists>p v oi. totalAlerts r = totalAlerts (runBacktest h p v oi)
        \<and> successful r = successful (runBacktest h p v oi)
        \<and> falsePositives r = falsePositives (runBacktest h p v oi)
        \<and> successRate r = successRate (runBacktest h p v oi)
        \<and> precision r = precision (runBacktest h p v oi)"
  by (clarsimp simp: testThresholds_def backtest_result.extend_def) blast

lemma testThresholds_nonempty:
  assumes "ps \<noteq> []" "vs \<noteq> []" "os \<noteq> []"
  shows "testThresholds h ps vs os \<noteq> []"
proof -
  have "length (testThresholds h ps vs os) = length (concat (map (\<lambda>priceT.
          concat (map (\<lambda>volumeT.
            map (\<lambda>oiT.
              backtest_result.extend (runBacktest h priceT volumeT oiT)
                \<lparr>priceThreshold = priceT, volumeThreshold = volumeT, oiThreshold = oiT\<rparr>)
              os)
            vs))
          ps))"
    unfolding testThresholds_def by (rule length_sort)
  moreover have "\<dots> \<noteq> 0"
    using assms by (cases ps; cases vs; cases os) simp_all
  ultimately show ?thesis by auto
qed

lemma Date_UTC_NaN_day: "Date_UTC y m NaN h mi sec = NaN"
  by (simp add: Date_UTC_def split: jsnum.splits)

lemma group_step_falsy:
  "\<not> truthy (parseExpiryTimestamp (instrument_name q)) \<Longrightarrow> group_step th now g q = g"
  by (simp add: group_step_def Let_def)

lemma Backtester_group_step_falsy:
  "\<not> truthy (parseExpiryTimestamp (instrument e)) \<Longrightarrow> Backtester_group_step g e = g"
  by (simp add: Backtester_group_step_def Let_def)

lemma Backtester_score_opt_falsy:
  "\<not> truthy (parseExpiryTimestamp (instrument e)) \<Longrightarrow> Backtester_score_opt st p v oi e = []"
  by (simp add: Backtester_score_opt_def Let_def)

text \<open>A text that is empty or begins with a character that is no space, sign or decimal
  digit has no number for \<open>parseInt\<close> to read.\<close>

lemma parseInt_no_digit:
  assumes "s = [] \<or> (\<not> is_space (hd s) \<and> hd s \<noteq> CHR ''+'' \<and> hd s \<noteq> CHR ''-''
             \<and> digit_of 10 (hd s) = None)"
  shows "parseInt s = NaN"
proof (cases s)
  case Nil
  then show ?thesis
    by (simp add: parseInt_def has_hex_prefix_def)
next
  case (Cons c cs)
  with assms have c: "\<not> is_space c" "c \<noteq> CHR ''+''" "c \<noteq> CHR ''-''" "digit_of 10 c = None"
    by simp_all
  have "c \<noteq> CHR ''0''"
    using c(4) by (auto simp: digit_of_def hex_digit_def)
  then have nh: "\<not> has_hex_prefix (c # cs)"
    by (cases cs) (auto simp: has_hex_prefix_def)
  show ?thesis
    using c nh by (simp add: parseInt_def Cons Let_def)
qed

lemma reduce_sum_sum_list: "reduce_sum vs = sum_list vs"
proof -
  have "foldl (\<lambda>a b. a + b) a vs = a + sum_list vs" for a :: real
    by (induction vs arbitrary: a) simp_all
  then show ?thesis
    by (simp add: reduce_sum_def)
qed

lemma sum_squares_nonneg: "0 \<le> sum_list (map (\<lambda>v. (v - m) ^ 2) vs)" for m :: real
  by (rule sum_list_nonneg) auto

lemma sum_squares_zero:
  fixes m :: real
  assumes "sum_list (map (\<lambda>v. (v - m) ^ 2) vs) = 0" "x \<in> set vs"
  shows "x = m"
  using assms
proof (induction vs)
  case Nil
  then show ?case by simp
next
  case (Cons a vs)
  have "(a - m) ^ 2 + sum_list (map (\<lambda>v. (v - m) ^ 2) vs) = 0"
    using Cons.prems(1) by simp
  moreover have "0 \<le> (a - m) ^ 2"
    by simp
  ultimately have "(a - m) ^ 2 = 0 \<and> sum_list (map (\<lambda>v. (v - m) ^ 2) vs) = 0"
    using sum_squares_nonneg [of m vs] by (simp add: add_nonneg_eq_0_iff)
  then show ?case
    using Cons.IH Cons.prems(2) by auto
qed

lemma calculateStdDev_nonneg: "0 \<le> calculateStdDev vs m"
  using sum_squares_nonneg [of m vs]
  by (simp add: calculateStdDev_def Let_def reduce_sum_sum_list)

lemma Backtester_std_zero_all_equal:
  assumes "Backtester_calculateStdDev vs = 0" "x \<in> set vs"
  shows "x = reduce_sum vs / real (length vs)"
proof -
  let ?avg = "reduce_sum vs / real (length vs)"
  have ne: "vs \<noteq> []"
    using assms(2) by auto
  then have "sqrt (sum_list (map (\<lambda>v. (v - ?avg) ^ 2) vs) / real (length vs)) = 0"
    using assms(1) by (simp add: Backtester_calculateStdDev_def Let_def reduce_sum_sum_list)
  then have "sum_list (map (\<lambda>v. (v - ?avg) ^ 2) vs) = 0"
    using ne by simp
  then show ?thesis
    using assms(2) by (rule sum_squares_zero)
qed

lemma avg_pos:
  assumes "vs \<noteq> []" "\<forall>x \<in> set vs. 0 < x"
  shows "0 < reduce_sum vs / real (length vs)"
proof -
  have "0 < sum_list vs"
    using assms by (induction vs) (auto intro: add_pos_nonneg sum_list_nonneg less_imp_le)
  then show ?thesis
    using assms(1) by (simp add: reduce_sum_sum_list)
qed

lemma map_of_group_push:
  "map_of (group_push k x g)
     = (map_of g)(k \<mapsto> (case map_of g k of None \<Rightarrow> [x] | Some xs \<Rightarrow> xs @ [x]))"
  by (induction g) (auto simp: fun_eq_iff)

lemma keys_group_push:
  "map fst (group_push k x g) = (if k \<in> set (map fst g) then map fst g else map fst g @ [k])"
  by (induction g) (force split: if_splits)+

lemma distinct_group_push:
  "distinct (map fst g) \<Longrightarrow> distinct (map fst (group_push k x g))"
  by (simp add: keys_group_push)

lemma distinct_group_step: "distinct (map fst g) \<Longrightarrow> distinct (map fst (group_step th now g q))"
  by (auto simp: group_step_def Let_def distinct_group_push split: option.splits jsnum.splits)

lemma distinct_Backtester_group_step:
  "distinct (map fst g) \<Longrightarrow> distinct (map fst (Backtester_group_step g e))"
  by (auto simp: Backtester_group_step_def Let_def distinct_group_push
           split: option.splits jsnum.splits)

lemma distinct_foldl:
  assumes "\<And>g x. distinct (map fst g) \<Longrightarrow> distinct (map fst (f g x))"
  shows "distinct (map fst g) \<Longrightarrow> distinct (map fst (foldl f g xs))"
  by (induction xs arbitrary: g) (simp_all add: assms)

lemma map_of_stats_None:
  "k \<notin> set (map fst g) \<Longrightarrow>
   map_of (concat (map (\<lambda>(expiry, opts).
            case f opts of None \<Rightarrow> [] | Some st \<Rightarrow> [(expiry, st)]) g)) k = None"
  by (induction g) (auto split: option.splits)

lemma map_of_stats:
  "distinct (map fst g) \<Longrightarrow>
   map_of (concat (map (\<lambda>(expiry, opts).
            case f opts of None \<Rightarrow> [] | Some st \<Rightarrow> [(expiry, st)]) g)) k
     = (case map_of g k of None \<Rightarrow> None | Some opts \<Rightarrow> f opts)"
proof (induction g)
  case Nil
  then show ?case by simp
next
  case (Cons a g)
  obtain k' ys where a: "a = (k', ys)" by (cases a)
  show ?case
  proof (cases "k = k'")
    case True
    then have "k \<notin> set (map fst g)" using Cons.prems a by simp
    then show ?thesis
      using a True map_of_stats_None [of k g f] by (simp split: option.splits)
  next
    case False
    then show ?thesis using Cons a by (simp split: option.splits)
  qed
qed

text \<open>The live scorer scores a group with the statistics of that group.\<close>

lemma scored_with_cohort_stats:
  assumes "(k, opts) \<in> set (fst (calculateAdvancedStats th now feed))"
  shows "map_of (snd (calculateAdvancedStats th now feed)) k = cohort_stats opts"
proof -
  have d: "distinct (map fst (foldl (group_step th now) [] feed))"
    by (rule distinct_foldl) (simp_all add: distinct_group_step)
  have "map_of (foldl (group_step th now) [] feed) k = Some opts"
    using assms d by (simp add: calculateAdvancedStats_def Let_def)
  then show ?thesis
    using map_of_stats [OF d, of cohort_stats k]
    by (simp add: calculateAdvancedStats_def Let_def)
qed

lemma in_group_push_same: "in_group k x (group_push k x g)"
  by (simp add: in_group_def map_of_group_push split: option.splits)

lemma in_group_push_other: "in_group k x g \<Longrightarrow> in_group k x (group_push k' y g)"
  by (auto simp: in_group_def map_of_group_push split: option.splits)

lemma in_group_Backtester_step: "in_group k x g \<Longrightarrow> in_group k x (Backtester_group_step g e)"
  by (auto simp: Backtester_group_step_def Let_def in_group_push_other
           split: option.splits jsnum.splits)

lemma in_group_Backtester_foldl:
  "in_group k x g \<Longrightarrow> in_group k x (foldl Backtester_group_step g es)"
  by (induction es arbitrary: g) (simp_all add: in_group_Backtester_step)

lemma Backtester_entry_grouped:
  assumes "e \<in> set es" "parseExpiryTimestamp (instrument e) = Some (Num ts)" "ts \<noteq> 0"
  shows "in_group (expiryKey ts) e (foldl Backtester_group_step g es)"
  using assms(1)
proof (induction es arbitrary: g)
  case Nil
  then show ?case by simp
next
  case (Cons a es)
  show ?case
  proof (cases "e = a")
    case True
    have "in_group (expiryKey ts) e (Backtester_group_step g a)"
      using True assms(2,3) by (simp add: Backtester_group_step_def Let_def in_group_push_same)
    then show ?thesis by (simp add: in_group_Backtester_foldl)
  next
    case False
    then have "e \<in> set es" using Cons.prems by simp
    then show ?thesis by (simp add: Cons.IH)
  qed
qed

text \<open>The backtesting scorer scores an entry with the statistics of a group that
  holds the entry.\<close>

lemma Backtester_scored_with_cohort_stats:
  assumes "e \<in> set es" "parseExpiryTimestamp (instrument e) = Some (Num ts)" "ts \<noteq> 0"
    and "map_of (Backtester_calculateExpiryStats es) (expiryKey ts) = Some bst"
  shows "\<exists>grp. e \<in> set grp \<and> Backtester_cohort_stats grp = Some bst"
proof -
  have d: "distinct (map fst (foldl Backtester_group_step [] es))"
    by (rule distinct_foldl) (simp_all add: distinct_Backtester_group_step)
  obtain grp where grp: "map_of (foldl Backtester_group_step [] es) (expiryKey ts) = Some grp"
      "e \<in> set grp"
    using Backtester_entry_grouped [OF assms(1-3), of "[]"]
    by (auto simp: in_group_def split: option.splits)
  have "map_of (Backtester_calculateExpiryStats es) (expiryKey ts) = Backtester_cohort_stats grp"
    using map_of_stats [OF d, of Backtester_cohort_stats "expiryKey ts"] grp(1)
    by (simp add: Backtester_calculateExpiryStats_def Let_def)
  then show ?thesis using grp(2) assms(4) by auto
qed

lemma live_zscore_formulas:
  "priceZScore st q = (if stdPrice st > 0 then \<bar>mark_price q - avgPrice st\<bar> / stdPrice st else 0)"
  "volumeZScore st q = (if stdVolume st > 0 \<and> volume_usd q > 0
        then \<bar>volume_usd q - avgVolume st\<bar> / stdVolume st else 0)"
  "oiZScore st q = (if stdOI st > 0 \<and> open_interest q > 0
        then \<bar>open_interest q - avgOI st\<bar> / stdOI st else 0)"
  by (simp_all add: priceZScore_def volumeZScore_def oiZScore_def)

lemma cohort_stats_std:
  assumes "cohort_stats opts = Some st"
  shows "0 \<le> stdPrice st" "0 \<le> stdVolume st" "0 \<le> stdOI st"
    "(\<forall>x\<in>set opts. volume_usd x \<le> 0) \<longrightarrow> stdVolume st = 0"
    "(\<forall>x\<in>set opts. open_interest x \<le> 0) \<longrightarrow> stdOI st = 0"
proof -
  have st: "st = \<lparr>avgPrice = avgPrice st, avgVolume = avgVolume st, avgOI = avgOI st,
      stdPrice = calculateStdDev (map mark_price (filter (\<lambda>x. mark_price x > 0) opts)) (avgPrice st),
      stdVolume = (if length (map volume_usd (filter (\<lambda>x. volume_usd x > 0) opts)) > 0
         then calculateStdDev (map volume_usd (filter (\<lambda>x. volume_usd x > 0) opts)) (avgVolume st) else 0),
      stdOI = (if length (map open_interest (filter (\<lambda>x. open_interest x > 0) opts)) > 0
         then calculateStdDev (map open_interest (filter (\<lambda>x. open_interest x > 0) opts)) (avgOI st) else 0),
      count = count st\<rparr>"
    using assms by (auto simp: cohort_stats_def Let_def split: if_splits)
  show "0 \<le> stdPrice st" "0 \<le> stdVolume st" "0 \<le> stdOI st"
    by (subst st, simp add: calculateStdDev_nonneg)+
  show "(\<forall>x\<in>set opts. volume_usd x \<le> 0) \<longrightarrow> stdVolume st = 0"
  proof
    assume "\<forall>x\<in>set opts. volume_usd x \<le> 0"
    then have "filter (\<lambda>x. volume_usd x > 0) opts = []"
      by (auto simp: filter_empty_conv)
    then show "stdVolume st = 0" by (subst st) simp
  qed
  show "(\<forall>x\<in>set opts. open_interest x \<le> 0) \<longrightarrow> stdOI st = 0"
  proof
    assume "\<forall>x\<in>set opts. open_interest x \<le> 0"
    then have "filter (\<lambda>x. open_interest x > 0) opts = []"
      by (auto simp: filter_empty_conv)
    then show "stdOI st = 0" by (subst st) simp
  qed
qed

lemma Backtester_calculateStdDev_nonneg: "0 \<le> Backtester_calculateStdDev vs"
  using sum_squares_nonneg [of "reduce_sum vs / real (length vs)" vs]
  by (simp add: Backtester_calculateStdDev_def Let_def reduce_sum_sum_list)

lemma Backtester_cohort_stats_facts:
  assumes "Backtester_cohort_stats grp = Some bst"
  shows "0 \<le> bt_stdPrice bst" "0 \<le> bt_stdVolume bst"
    "bt_stdVolume bst > 0 \<longrightarrow> bt_avgVolume bst > 0"
    "(\<forall>x\<in>set grp. volume x \<le> 0) \<longrightarrow> bt_avgVolume bst = 0"
    "(\<forall>x\<in>set grp. openInterest x \<le> 0) \<longrightarrow> bt_avgOI bst = 0"
    "bt_stdPrice bst = 0 \<and> e \<in> set grp \<and> markPrice e > 0 \<longrightarrow> markPrice e = bt_avgPrice bst"
    "bt_stdVolume bst = 0 \<and> e \<in> set grp \<and> volume e > 0 \<longrightarrow> volume e = bt_avgVolume bst"
proof -
  let ?vp = "map markPrice (filter (\<lambda>x. markPrice x > 0) grp)"
  let ?vv = "map volume (filter (\<lambda>x. volume x > 0) grp)"
  let ?vo = "map openInterest (filter (\<lambda>x. openInterest x > 0) grp)"
  have f: "bt_avgPrice bst = reduce_sum ?vp / real (length ?vp)"
      "bt_avgVolume bst = (if length ?vv > 0 then reduce_sum ?vv / real (length ?vv) else 0)"
      "bt_avgOI bst = (if length ?vo > 0 then reduce_sum ?vo / real (length ?vo) else 0)"
      "bt_stdPrice bst = Backtester_calculateStdDev ?vp"
      "bt_stdVolume bst = (if length ?vv > 0 then Backtester_calculateStdDev ?vv else 0)"
    using assms by (auto simp: Backtester_cohort_stats_def Let_def split: if_splits)
  show "0 \<le> bt_stdPrice bst" "0 \<le> bt_stdVolume bst"
    by (simp_all add: f Backtester_calculateStdDev_nonneg)
  show "bt_stdVolume bst > 0 \<longrightarrow> bt_avgVolume bst > 0"
  proof
    assume "bt_stdVolume bst > 0"
    then have ne: "?vv \<noteq> []" by (auto simp: f split: if_splits)
    have "0 < reduce_sum ?vv / real (length ?vv)"
      by (rule avg_pos[OF ne]) auto
    then show "bt_avgVolume bst > 0" using ne by (simp add: f)
  qed
  show "(\<forall>x\<in>set grp. volume x \<le> 0) \<longrightarrow> bt_avgVolume bst = 0"
  proof
    assume "\<forall>x\<in>set grp. volume x \<le> 0"
    then have "filter (\<lambda>x. volume x > 0) grp = []" by (auto simp: filter_empty_conv)
    then show "bt_avgVolume bst = 0" by (simp add: f)
  qed
  show "(\<forall>x\<in>set grp. openInterest x \<le> 0) \<longrightarrow> bt_avgOI bst = 0"
  proof
    assume "\<forall>x\<in>set grp. openInterest x \<le> 0"
    then have "filter (\<lambda>x. openInterest x > 0) grp = []" by (auto simp: filter_empty_conv)
    then show "bt_avgOI bst = 0" by (simp add: f)
  qed
  show "bt_stdPrice bst = 0 \<and> e \<in> set grp \<and> markPrice e > 0 \<longrightarrow> markPrice e = bt_avgPrice bst"
  proof
    assume a: "bt_stdPrice bst = 0 \<and> e \<in> set grp \<and> markPrice e > 0"
    then have "markPrice e \<in> set ?vp" by auto
    moreover have "Backtester_calculateStdDev ?vp = 0" using a by (simp add: f)
    ultimately have "markPrice e = reduce_sum ?vp / real (length ?vp)"
      by (rule Backtester_std_zero_all_equal[rotated])
    then show "markPrice e = bt_avgPrice bst" by (simp add: f)
  qed
  show "bt_stdVolume bst = 0 \<and> e \<in> set grp \<and> volume e > 0 \<longrightarrow> volume e = bt_avgVolume bst"
  proof
    assume a: "bt_stdVolume bst = 0 \<and> e \<in> set grp \<and> volume e > 0"
    then have m: "volume e \<in> set ?vv" by auto
    have ne: "?vv \<noteq> []"
    proof
      assume "?vv = []"
      with m show False by simp
    qed
    have "Backtester_calculateStdDev ?vv = 0" using a ne by (simp add: f)
    then have "volume e = reduce_sum ?vv / real (length ?vv)"
      using m by (rule Backtester_std_zero_all_equal)
    then show "volume e = bt_avgVolume bst" using ne by (simp add: f)
  qed
qed

lemma sqrt_2500: "sqrt 2500 = 50"
  by (rule real_sqrt_unique) simp_all

text \<open>Every symbol of the expiry 7NOV25 parses to the same instant, whatever its strike
  and side.\<close>

lemma parse_7NOV25: "parseExpiryTimestamp (''ETH-7NOV25-'' @ rest) = Some (Num 1762502400000)"
proof -
  have sp: "split_on CHR ''-'' (''ETH-7NOV25-'' @ rest)
              = ''ETH'' # ''7NOV25'' # split_on CHR ''-'' rest"
    by (simp add: Let_def)
  have d: "parseInt (slice ''7NOV25'' 0 (- 5)) = Num 7"
    by code_simp
  have m: "monthMap (slice ''7NOV25'' (- 5) (- 2)) = Some 10"
    by code_simp
  have y: "parseInt (slice_from ''7NOV25'' (- 2)) = Num 25"
    by code_simp
  have u: "Date_UTC (Num 2025) 10 (Num 7) 8 0 0 = Num 1762502400000"
    by code_simp
  show ?thesis
    unfolding parseExpiryTimestamp_def sp
    by (simp add: Let_def d m y u)
qed

lemma parse_feed_quote:
  "parseExpiryTimestamp (instrument_name (feed_quote strike price vol))
     = Some (Num 1762502400000)"
  by (simp only: feed_quote_def option_quote.simps parse_7NOV25)

lemma group_step_feed_quote:
  "group_step OPTIMAL_THRESHOLDS now_6NOV g (feed_quote strike price vol)
     = group_push ''2025-11-07'' (in_cohort (feed_quote strike price vol)) g"
  by (simp add: group_step_def Let_def parse_feed_quote key_quote_A now_6NOV_def
        OPTIMAL_THRESHOLDS_def in_cohort_def)

lemma groups_feed_T:
  "fst (calculateAdvancedStats OPTIMAL_THRESHOLDS now_6NOV feed_T)
     = [(''2025-11-07'', map in_cohort feed_T)]"
  by (simp add: calculateAdvancedStats_def Let_def feed_T_def group_step_feed_quote)

lemma sqrt_variance_T: "sqrt (1923769 / 100) = 1387 / 10"
  by (rule real_sqrt_unique) (simp_all add: power2_eq_square)

lemma cohort_stats_T: "cohort_stats (map in_cohort feed_T) = Some stats_T"
  by (simp add: cohort_stats_def Let_def feed_T_def in_cohort_def feed_quote_def
        option_quote.extend_def reduce_sum_def calculateStdDev_def stats_T_def sqrt_variance_T
        power2_eq_square)

lemma stats_feed_T:
  "snd (calculateAdvancedStats OPTIMAL_THRESHOLDS now_6NOV feed_T) = [(''2025-11-07'', stats_T)]"
  using groups_feed_T cohort_stats_T
  by (simp add: calculateAdvancedStats_def Let_def)

lemma composite_510:
  "composite_score OPTIMAL_THRESHOLDS stats_T (in_cohort (feed_quote s 6 510))
     = 3 + 79 / 1387 + 47 / 24"
  by (simp add: composite_score_def anomalyScore_def priceZScore_def volumeZScore_def
        oiZScore_def timeDecayFactor_def OPTIMAL_THRESHOLDS_def stats_T_def in_cohort_def
        feed_quote_def option_quote.extend_def)

lemma composite_511:
  "composite_score OPTIMAL_THRESHOLDS stats_T (in_cohort (feed_quote s 6 511))
     = 3 + 89 / 1387 + 47 / 24"
  by (simp add: composite_score_def anomalyScore_def priceZScore_def volumeZScore_def
        oiZScore_def timeDecayFactor_def OPTIMAL_THRESHOLDS_def stats_T_def in_cohort_def
        feed_quote_def option_quote.extend_def)

lemma score_opt_low:
  "vol = 345 \<or> vol = 655 \<Longrightarrow>
   score_opt OPTIMAL_THRESHOLDS k stats_T (in_cohort (feed_quote s 1 vol)) = []"
  by (auto simp: score_opt_def Let_def anomalyScore_def priceZScore_def volumeZScore_def
        oiZScore_def timeDecayFactor_def OPTIMAL_THRESHOLDS_def stats_T_def in_cohort_def
        feed_quote_def option_quote.extend_def)

lemma score_opt_510:
  "map alert_symbol (score_opt OPTIMAL_THRESHOLDS k stats_T
      (in_cohort (feed_quote ''3000'' 6 510))) = [''ETH-7NOV25-3000-C'']"
  "map alert_anomalyScore (score_opt OPTIMAL_THRESHOLDS k stats_T
      (in_cohort (feed_quote ''3000'' 6 510))) = [5.02]"
  by (simp_all add: score_opt_def Let_def anomalyScore_def priceZScore_def volumeZScore_def
        oiZScore_def timeDecayFactor_def OPTIMAL_THRESHOLDS_def stats_T_def in_cohort_def
        feed_quote_def option_quote.extend_def toFixed_def)

lemma score_opt_511:
  "map alert_symbol (score_opt OPTIMAL_THRESHOLDS k stats_T
      (in_cohort (feed_quote ''3100'' 6 511))) = [''ETH-7NOV25-3100-C'']"
  "map alert_anomalyScore (score_opt OPTIMAL_THRESHOLDS k stats_T
      (in_cohort (feed_quote ''3100'' 6 511))) = [5.02]"
  by (simp_all add: score_opt_def Let_def anomalyScore_def priceZScore_def volumeZScore_def
        oiZScore_def timeDecayFactor_def OPTIMAL_THRESHOLDS_def stats_T_def in_cohort_def
        feed_quote_def option_quote.extend_def toFixed_def)

lemma pushed_feed_T:
  "pushed_alerts OPTIMAL_THRESHOLDS [(''2025-11-07'', map in_cohort feed_T)]
       [(''2025-11-07'', stats_T)]
    = score_opt OPTIMAL_THRESHOLDS ''2025-11-07'' stats_T (in_cohort (feed_quote ''3000'' 6 510))
      @ score_opt OPTIMAL_THRESHOLDS ''2025-11-07'' stats_T
          (in_cohort (feed_quote ''3100'' 6 511))"
  by (simp add: pushed_alerts_def feed_T_def score_opt_low)

lemma sort_key_const:
  assumes "\<forall>x \<in> set xs. f x = c"
  shows "sort_key f xs = xs"
  using assms by (induction xs) (auto simp: insort_is_Cons)

lemma detect_feed_T:
  "map alert_symbol (detectHighProbabilityAlerts OPTIMAL_THRESHOLDS
      [(''2025-11-07'', map in_cohort feed_T)] [(''2025-11-07'', stats_T)])
   = [''ETH-7NOV25-3000-C'', ''ETH-7NOV25-3100-C'']"
proof -
  let ?P = "pushed_alerts OPTIMAL_THRESHOLDS [(''2025-11-07'', map in_cohort feed_T)]
              [(''2025-11-07'', stats_T)]"
  have sc: "map alert_anomalyScore ?P = [5.02, 5.02]"
    by (simp add: pushed_feed_T score_opt_510 score_opt_511)
  have "- alert_anomalyScore a = - 5.02" if "a \<in> set ?P" for a
  proof -
    have "alert_anomalyScore a \<in> alert_anomalyScore ` set ?P"
      using that by (rule imageI)
    then have "alert_anomalyScore a \<in> set (map alert_anomalyScore ?P)"
      by (simp only: set_map)
    then show ?thesis
      unfolding sc by simp
  qed
  then have "\<forall>a \<in> set ?P. - alert_anomalyScore a = - 5.02"
    by blast
  then have "sort_key (\<lambda>a. - alert_anomalyScore a) ?P = ?P"
    by (rule sort_key_const)
  then show ?thesis
    by (simp add: detectHighProbabilityAlerts_def pushed_feed_T score_opt_510 score_opt_511)
qed

text \<open>\<open>parseInt\<close> reads the whole hours of a decimal setting and drops a fraction.\<close>

lemma digit_of_digit_char: "n < 10 \<Longrightarrow> digit_of 10 (digit_char (int n)) = Some (int n)"
proof -
  assume "n < 10"
  then have "n \<in> {0, 1, 2, 3, 4, 5, 6, 7, 8, 9}" by auto
  then show ?thesis
    by (auto simp: digit_of_def hex_digit_def digit_char_def)
qed

lemma decimal_nonempty: "decimal n \<noteq> []"
  by (subst decimal.simps) simp

lemma decimal_digits: "c \<in> set (decimal n) \<Longrightarrow> \<exists>d. digit_of 10 c = Some d"
proof (induction n rule: decimal.induct)
  case (1 n)
  show ?case
  proof (cases "n < 10")
    case True
    then show ?thesis
      using "1.prems" digit_of_digit_char [of n] by (subst (asm) decimal.simps) simp
  next
    case False
    then have "c \<in> set (decimal (n div 10)) \<or> c = digit_char (int (n mod 10))"
      using "1.prems" by (subst (asm) decimal.simps) auto
    then show ?thesis
      using "1.IH" False digit_of_digit_char [of "n mod 10"] by auto
  qed
qed

lemma read_digits_append:
  assumes "\<forall>c \<in> set xs. \<exists>d. digit_of r c = Some d"
  shows "read_digits r acc (xs @ ys) = read_digits r (read_digits r acc xs) ys"
  using assms
proof (induction xs arbitrary: acc)
  case Nil
  then show ?case by simp
next
  case (Cons a xs)
  then obtain d where "digit_of r a = Some d" by auto
  then show ?case using Cons by simp
qed

lemma read_digits_decimal: "read_digits 10 None (decimal n) = Some (int n)"
proof (induction n rule: decimal.induct)
  case (1 n)
  show ?case
  proof (cases "n < 10")
    case True
    then show ?thesis
      using digit_of_digit_char [of n] by (subst decimal.simps) simp
  next
    case False
    have dg: "\<forall>c \<in> set (decimal (n div 10)). \<exists>d. digit_of 10 c = Some d"
      using decimal_digits by blast
    have "read_digits 10 None (decimal n)
            = read_digits 10 (read_digits 10 None (decimal (n div 10)))
                [digit_char (int (n mod 10))]"
      using False by (subst decimal.simps) (simp add: read_digits_append [OF dg])
    also have "\<dots> = Some (int (n div 10) * 10 + int (n mod 10))"
      using "1.IH" False digit_of_digit_char [of "n mod 10"] by simp
    also have "int (n div 10) * 10 + int (n mod 10) = int n"
      by (simp add: zdiv_int zmod_int)
    finally show ?thesis .
  qed
qed

lemma read_digits_decimal_frac:
  assumes "rest = [] \<or> hd rest = CHR ''.''"
  shows "read_digits 10 None (decimal n @ rest) = Some (int n)"
proof -
  have dg: "\<forall>c \<in> set (decimal n). \<exists>d. digit_of 10 c = Some d"
    using decimal_digits by blast
  have "read_digits 10 (Some (int n)) rest = Some (int n)"
    using assms by (cases rest) (auto simp: digit_of_def hex_digit_def)
  then show ?thesis
    by (simp add: read_digits_append [OF dg] read_digits_decimal)
qed

lemma hd_decimal_digit: "\<exists>d. digit_of 10 (hd (decimal n)) = Some d"
  using decimal_digits [of "hd (decimal n)" n] decimal_nonempty [of n] by simp

lemma digit_facts:
  assumes "digit_of 10 c = Some d"
  shows "\<not> is_space c" "c \<noteq> CHR ''+''" "c \<noteq> CHR ''-''" "c \<noteq> CHR ''x''" "c \<noteq> CHR ''X''"
  using assms by (auto simp: digit_of_def hex_digit_def is_space_def)

lemma no_hex_prefix:
  assumes "rest = [] \<or> hd rest = CHR ''.''"
  shows "\<not> has_hex_prefix (decimal n @ rest)"
proof -
  obtain a as where d: "decimal n = a # as"
    using decimal_nonempty [of n] by (cases "decimal n") auto
  show ?thesis
  proof (cases as)
    case Nil
    then show ?thesis using d assms by (cases rest) (auto simp: has_hex_prefix_def)
  next
    case (Cons b bs)
    then have "b \<in> set (decimal n)" using d by simp
    then obtain e where "digit_of 10 b = Some e" using decimal_digits by blast
    then have "b \<noteq> CHR ''x''" "b \<noteq> CHR ''X''" using digit_facts by auto
    then show ?thesis using d Cons by (simp add: has_hex_prefix_def)
  qed
qed

lemma parseInt_decimal:
  assumes "rest = [] \<or> hd rest = CHR ''.''"
  shows "parseInt (decimal n @ rest) = Num (int n)"
proof -
  obtain a as where d: "decimal n = a # as"
    using decimal_nonempty [of n] by (cases "decimal n") auto
  obtain e where "digit_of 10 a = Some e"
    using hd_decimal_digit [of n] d by auto
  note f = digit_facts [OF this]
  have dw: "dropWhile is_space (decimal n @ rest) = decimal n @ rest"
    using d f by simp
  have nh: "\<not> has_hex_prefix (decimal n @ rest)"
    using assms by (rule no_hex_prefix)
  have hd: "hd (decimal n @ rest) = a" "decimal n @ rest \<noteq> []"
    using d by simp_all
  show ?thesis
    unfolding parseInt_def dw
    using nh hd f read_digits_decimal_frac [OF assms, of n] by (simp add: Let_def)
qed

lemma cooldownHours_decimal:
  assumes "rest = [] \<or> hd rest = CHR ''.''"
  shows "cooldownHours (Some (decimal n @ rest)) = Num (int n)"
  using parseInt_decimal [OF assms, of n] decimal_nonempty [of n]
  by (simp add: cooldownHours_def)

subsection \<open>The z-scores\<close>

text \<open>
  C1, as stated, fails in the live scorer: a quote with volume 0 in a cohort whose
  positive volumes 1 and 3 have mean 2 and deviation 1 gets the volume z-score 0, not
  \<open>|0 - 2| / 1 = 2\<close>.
\<close>

theorem zscore_claim_fails:
  "cohort_stats cohort_L = Some stats_L
   \<and> stdVolume stats_L > 0
   \<and> volumeZScore stats_L (grouped_vol 0) = 0
   \<and> \<bar>volume_usd (grouped_vol 0) - avgVolume stats_L\<bar> / stdVolume stats_L = 2"
proof -
  have 0: "cohort_stats cohort_L = Some stats_L"
    by (simp add: cohort_stats_def Let_def cohort_L_def grouped_vol_def grouped_A_def
          quote_A_def option_quote.extend_def reduce_sum_def calculateStdDev_def stats_L_def)
  have 1: "stdVolume stats_L > 0" "volumeZScore stats_L (grouped_vol 0) = 0"
      "\<bar>volume_usd (grouped_vol 0) - avgVolume stats_L\<bar> / stdVolume stats_L = 2"
    by (simp_all add: stats_L_def volumeZScore_def grouped_vol_def)
  show ?thesis
    using 0 1 by simp
qed

text \<open>
  C1, amended. Let \<open>st\<close> be the statistics of a cohort of the live monitor. The price
  z-score of a quote is \<open>|price - mean| / stdDev\<close> when the standard deviation of the
  prices is \<open>> 0\<close>, and 0 otherwise. Its volume and open-interest z-scores are
  \<open>|value - mean| / stdDev\<close> when the standard deviation of the dimension is \<open>> 0\<close> and
  the quote's own value is \<open>> 0\<close>, and 0 otherwise; a standard deviation is never negative,
  and it is 0, and the z-score with it, when the cohort has no strictly positive member in
  the dimension.

  Let \<open>bst\<close> be the statistics of a cohort of the backtester and \<open>e\<close> a member with a
  positive price (the scorer skips the others). The magnitude of the price z-score, which
  is what enters the composite score, is \<open>|price - mean| / stdDev\<close> when the standard
  deviation is \<open>> 0\<close>, and 0 otherwise. The magnitude of the volume z-score is
  \<open>|volume - mean| / stdDev\<close> when the standard deviation is \<open>> 0\<close>; the volume z-score is 0
  when the standard deviation is 0 and the quote's volume is positive, and when the cohort
  has no strictly positive volume. The open-interest z-score is 0 when the cohort has no
  strictly positive open interest. Nothing is stated for the volume z-score of a quote
  without volume at deviation 0, nor for the open-interest z-score of a cohort that has a
  positive open interest.
\<close>

theorem zscores_of_scored_quotes:
  assumes "cohort_stats opts = Some st"
    and "Backtester_cohort_stats grp = Some bst" and "e \<in> set grp" and "markPrice e > 0"
  shows "priceZScore st q
           = (if stdPrice st > 0 then \<bar>mark_price q - avgPrice st\<bar> / stdPrice st else 0)
       \<and> volumeZScore st q
           = (if stdVolume st > 0 \<and> volume_usd q > 0
              then \<bar>volume_usd q - avgVolume st\<bar> / stdVolume st else 0)
       \<and> oiZScore st q
           = (if stdOI st > 0 \<and> open_interest q > 0
              then \<bar>open_interest q - avgOI st\<bar> / stdOI st else 0)
       \<and> 0 \<le> stdPrice st \<and> 0 \<le> stdVolume st \<and> 0 \<le> stdOI st
       \<and> ((\<forall>x\<in>set opts. volume_usd x \<le> 0) \<longrightarrow> stdVolume st = 0 \<and> volumeZScore st q = 0)
       \<and> ((\<forall>x\<in>set opts. open_interest x \<le> 0) \<longrightarrow> stdOI st = 0 \<and> oiZScore st q = 0)
       \<and> \<bar>Backtester_priceZScore bst e\<bar>
           = (if bt_stdPrice bst > 0 then \<bar>markPrice e - bt_avgPrice bst\<bar> / bt_stdPrice bst
              else 0)
       \<and> (bt_stdVolume bst > 0 \<longrightarrow>
            \<bar>Backtester_volumeZScore bst e\<bar> = \<bar>volume e - bt_avgVolume bst\<bar> / bt_stdVolume bst)
       \<and> (bt_stdVolume bst = 0 \<and> volume e > 0 \<longrightarrow> Backtester_volumeZScore bst e = 0)
       \<and> ((\<forall>x\<in>set grp. volume x \<le> 0) \<longrightarrow> Backtester_volumeZScore bst e = 0)
       \<and> ((\<forall>x\<in>set grp. openInterest x \<le> 0) \<longrightarrow> Backtester_oiZScore bst e = 0)
       \<and> 0 \<le> bt_stdPrice bst \<and> 0 \<le> bt_stdVolume bst"
proof -
  note L = cohort_stats_std [OF assms(1)]
  note B = Backtester_cohort_stats_facts [OF assms(2)]
  have lv: "(\<forall>x\<in>set opts. volume_usd x \<le> 0) \<longrightarrow> stdVolume st = 0 \<and> volumeZScore st q = 0"
    using L(4) by (simp add: volumeZScore_def)
  have lo: "(\<forall>x\<in>set opts. open_interest x \<le> 0) \<longrightarrow> stdOI st = 0 \<and> oiZScore st q = 0"
    using L(5) by (simp add: oiZScore_def)
  have bp: "\<bar>Backtester_priceZScore bst e\<bar>
           = (if bt_stdPrice bst > 0 then \<bar>markPrice e - bt_avgPrice bst\<bar> / bt_stdPrice bst
              else 0)"
    using B(1) B(6) [of e] assms(3,4)
    by (auto simp: Backtester_priceZScore_def or_one_def abs_divide)
  have bv: "bt_stdVolume bst > 0 \<longrightarrow>
            \<bar>Backtester_volumeZScore bst e\<bar> = \<bar>volume e - bt_avgVolume bst\<bar> / bt_stdVolume bst"
    using B(3) by (auto simp: Backtester_volumeZScore_def or_one_def abs_divide)
  have bv0: "bt_stdVolume bst = 0 \<and> volume e > 0 \<longrightarrow> Backtester_volumeZScore bst e = 0"
    using B(7) [of e] assms(3) by (auto simp: Backtester_volumeZScore_def)
  have bva: "(\<forall>x\<in>set grp. volume x \<le> 0) \<longrightarrow> Backtester_volumeZScore bst e = 0"
    using B(4) by (simp add: Backtester_volumeZScore_def)
  have boa: "(\<forall>x\<in>set grp. openInterest x \<le> 0) \<longrightarrow> Backtester_oiZScore bst e = 0"
    using B(5) by (simp add: Backtester_oiZScore_def)
  show ?thesis
    using live_zscore_formulas [of st q] L(1,2,3) lv lo bp bv bv0 bva boa B(1,2)
    by blast
qed

theorem zscores_of_scored_quotes_witness:
  "volumeZScore stats_L (grouped_vol 3) = 1
   \<and> volumeZScore stats_L (grouped_vol 0) = 0
   \<and> priceZScore stats_L (grouped_vol 3) = 0
   \<and> Backtester_priceZScore stats_B (entry_vol 5) = 0
   \<and> Backtester_volumeZScore stats_B (entry_vol 5) = 0
   \<and> \<bar>Backtester_volumeZScore stats_B13 (entry_vol 3)\<bar> = 1
   \<and> volumeZScore stats_idle grouped_idle = 0
   \<and> oiZScore stats_idle grouped_idle = 0
   \<and> Backtester_volumeZScore stats_B_idle entry_idle = 0
   \<and> Backtester_oiZScore stats_B_idle entry_idle = 0"
proof -
  have cL: "cohort_stats cohort_L = Some stats_L"
    by (simp add: cohort_stats_def Let_def cohort_L_def grouped_vol_def grouped_A_def
          quote_A_def option_quote.extend_def reduce_sum_def calculateStdDev_def stats_L_def)
  have cI: "cohort_stats [grouped_idle] = Some stats_idle"
    by (simp add: cohort_stats_def Let_def grouped_idle_def grouped_A_def
          quote_A_def option_quote.extend_def reduce_sum_def calculateStdDev_def stats_idle_def)
  have cB: "Backtester_cohort_stats cohort_B = Some stats_B"
    by (simp add: Backtester_cohort_stats_def Let_def cohort_B_def entry_vol_def entry_C_def
          reduce_sum_def Backtester_calculateStdDev_def stats_B_def)
  have cB13: "Backtester_cohort_stats cohort_B13 = Some stats_B13"
    by (simp add: Backtester_cohort_stats_def Let_def cohort_B13_def entry_vol_def entry_C_def
          reduce_sum_def Backtester_calculateStdDev_def stats_B13_def)
  have cBI: "Backtester_cohort_stats [entry_idle] = Some stats_B_idle"
    by (simp add: Backtester_cohort_stats_def Let_def entry_idle_def entry_C_def
          reduce_sum_def Backtester_calculateStdDev_def stats_B_idle_def)
  have m5: "entry_vol 5 \<in> set cohort_B" and p5: "markPrice (entry_vol 5) > 0"
    and m3: "entry_vol 3 \<in> set cohort_B13" and p3: "markPrice (entry_vol 3) > 0"
    and mI: "entry_idle \<in> set [entry_idle]" and pI: "markPrice entry_idle > 0"
    by (simp_all add: cohort_B_def cohort_B13_def entry_vol_def entry_C_def entry_idle_def)
  have A: "volumeZScore stats_L (grouped_vol 3) = 1 \<and> priceZScore stats_L (grouped_vol 3) = 0
       \<and> Backtester_priceZScore stats_B (entry_vol 5) = 0
       \<and> Backtester_volumeZScore stats_B (entry_vol 5) = 0"
    using zscores_of_scored_quotes [OF cL cB m5 p5, where q = "grouped_vol 3"]
    by (simp add: stats_L_def stats_B_def grouped_vol_def grouped_A_def quote_A_def
          option_quote.extend_def entry_vol_def entry_C_def)
  have B: "volumeZScore stats_L (grouped_vol 0) = 0
       \<and> \<bar>Backtester_volumeZScore stats_B13 (entry_vol 3)\<bar> = 1"
    using zscores_of_scored_quotes [OF cL cB13 m3 p3, where q = "grouped_vol 0"]
    by (simp add: stats_L_def stats_B13_def grouped_vol_def grouped_A_def quote_A_def
          option_quote.extend_def entry_vol_def entry_C_def)
  have C: "volumeZScore stats_idle grouped_idle = 0 \<and> oiZScore stats_idle grouped_idle = 0
       \<and> Backtester_volumeZScore stats_B_idle entry_idle = 0
       \<and> Backtester_oiZScore stats_B_idle entry_idle = 0"
    using zscores_of_scored_quotes [OF cI cBI mI pI, where q = grouped_idle]
    by (simp add: grouped_idle_def entry_idle_def)
  show ?thesis
    using A B C by simp
qed

text \<open>
  The two cases left open above, evaluated. With the positive volumes both 5 the
  backtester's deviation is 0 and its divisor 1, so a quote without volume gets \<open>- 5\<close>;
  and it divides the open-interest deviation by 1, so a quote with open interest 100 in a
  cohort with open interests 100 and 200 (mean 150, deviation 50) gets \<open>- 50\<close>. The live
  scorer divides both by the standard deviation of the dimension.
\<close>

lemma Backtester_divisor_one:
  "Backtester_cohort_stats cohort_B = Some stats_B
   \<and> bt_stdVolume stats_B = 0
   \<and> Backtester_volumeZScore stats_B (entry_vol 0) = - 5
   \<and> Backtester_cohort_stats [entry_C, entry_P] = Some stats_CP
   \<and> calculateStdDev [100, 200] 150 = 50
   \<and> Backtester_oiZScore stats_CP entry_C = - 50"
proof -
  have 2: "Backtester_cohort_stats cohort_B = Some stats_B"
    by (simp add: Backtester_cohort_stats_def Let_def cohort_B_def entry_vol_def entry_C_def
          reduce_sum_def Backtester_calculateStdDev_def stats_B_def)
  have 3: "bt_stdVolume stats_B = 0" "Backtester_volumeZScore stats_B (entry_vol 0) = - 5"
    by (simp_all add: stats_B_def Backtester_volumeZScore_def entry_vol_def or_one_def)
  have 4: "Backtester_cohort_stats [entry_C, entry_P] = Some stats_CP"
    by (simp add: Backtester_cohort_stats_def Let_def entry_P_def entry_C_def
          reduce_sum_def Backtester_calculateStdDev_def stats_CP_def)
  have 5: "calculateStdDev [100, 200] 150 = 50"
    by (simp add: calculateStdDev_def reduce_sum_def sqrt_2500)
  have 6: "Backtester_oiZScore stats_CP entry_C = - 50"
    by (simp add: Backtester_oiZScore_def stats_CP_def entry_C_def)
  show ?thesis
    using 2 3 4 5 6 by simp
qed

subsection \<open>The time decay\<close>



subsection \<open>The composite score\<close>

text \<open>
  C7. With the weights fixed and non-negative (the precondition the specification puts
  on the caller), the composite score of the live scorer is monotonically non-decreasing
  in each z-score and in the time-decay factor, whose weight is the constant 2.
\<close>

theorem anomalyScore_monotone:
  assumes "0 \<le> priceWeight th" "0 \<le> volumeWeight th" "0 \<le> oiWeight th"
    and "pz \<le> pz'" "vz \<le> vz'" "oz \<le> oz'" "td \<le> td'"
  shows "anomalyScore th pz vz oz td \<le> anomalyScore th pz' vz' oz' td'"
proof -
  have "pz * priceWeight th \<le> pz' * priceWeight th"
    using assms by (simp add: mult_right_mono)
  moreover have "vz * volumeWeight th \<le> vz' * volumeWeight th"
    using assms by (simp add: mult_right_mono)
  moreover have "oz * oiWeight th \<le> oz' * oiWeight th"
    using assms by (simp add: mult_right_mono)
  moreover have "td * 2.0 \<le> td' * 2.0"
    using assms by simp
  ultimately show ?thesis
    unfolding anomalyScore_def by linarith
qed

theorem anomalyScore_monotone_witness:
  "anomalyScore OPTIMAL_THRESHOLDS 1 1 1 0 \<le> anomalyScore OPTIMAL_THRESHOLDS 2 1 1 (1 / 2)"
  using anomalyScore_monotone [of OPTIMAL_THRESHOLDS 1 2 1 1 1 1 0 "1 / 2"]
  by (simp add: OPTIMAL_THRESHOLDS_def)

subsection \<open>The cooldown gate\<close>

text \<open>
  C5, as stated, fails: with the cooldown configured as 0.5 hours, which is \<open>> 0\<close>,
  \<open>parseInt\<close> reads 0 hours, and \<open>shouldSendAlert\<close> is true at the very instant of
  \<open>recordAlertSent\<close> for the same cohort.
\<close>

theorem fractional_cooldown_reads_zero:
  "cooldownHours (Some ''0.5'') = Num 0
   \<and> shouldSendAlert (Some ''0.5'')
         (recordAlertSent initial_state now_6NOV ''2025-11-07'' [grouped_A])
         now_6NOV ''2025-11-07''"
proof -
  have c: "cooldownHours (Some ''0.5'') = Num 0"
    by code_simp
  show ?thesis
    using c by (simp add: shouldSendAlert_def recordAlertSent_def Let_def now_6NOV_def)
qed

text \<open>
  C5, amended. The cooldown is the whole number \<open>n\<close> of hours that \<open>parseInt\<close> reads
  from the setting: 6 when nothing is configured, and \<open>n\<close> for a setting that is the
  decimal text of \<open>n\<close>, alone or followed by a fraction, which is dropped. Let no entry hold
  the instant 0. Then \<open>shouldSendAlert\<close> is true iff the cohort has no entry or the time
  since its last alert is at least \<open>n\<close> hours. Right after \<open>recordAlertSent\<close> at an instant
  that is not 0 it is false when \<open>n > 0\<close> and true when \<open>n = 0\<close>; it stays false while
  fewer than \<open>n\<close> hours have passed, and it is true once \<open>n\<close> hours have passed.
\<close>

theorem shouldSendAlert_cooldown:
  assumes "env = None \<and> n = 6
           \<or> env = Some (decimal n @ rest) \<and> (rest = [] \<or> hd rest = CHR ''.'')"
    and "lastAlertTime st k \<noteq> Some 0" and "now0 \<noteq> 0"
  shows "cooldownHours env = Num (int n)
       \<and> (shouldSendAlert env st now k \<longleftrightarrow>
            (lastAlertTime st k = None \<or>
             (\<exists>t. lastAlertTime st k = Some t \<and> real_of_int (now - t) / 3600000 \<ge> real n)))
       \<and> (0 < n \<longrightarrow> \<not> shouldSendAlert env (recordAlertSent st now0 k alerts) now0 k)
       \<and> (n = 0 \<longrightarrow> shouldSendAlert env (recordAlertSent st now0 k alerts) now0 k)
       \<and> (now1 - now0 < int n * 3600000 \<longrightarrow>
            \<not> shouldSendAlert env (recordAlertSent st now0 k alerts) now1 k)
       \<and> (int n * 3600000 \<le> now1 - now0 \<longrightarrow>
            shouldSendAlert env (recordAlertSent st now0 k alerts) now1 k)"
proof -
  have six: "cooldownHours None = Num 6"
    by code_simp
  have c: "cooldownHours env = Num (int n)"
    using assms(1) six cooldownHours_decimal [of rest n] by auto
  have gate: "shouldSendAlert env st now k \<longleftrightarrow>
            (lastAlertTime st k = None \<or>
             (\<exists>t. lastAlertTime st k = Some t \<and> real_of_int (now - t) / 3600000 \<ge> real n))"
    using c assms(2) by (auto simp: shouldSendAlert_def Let_def split: option.splits)
  have eq: "shouldSendAlert env (recordAlertSent st now0 k alerts) u k
              \<longleftrightarrow> real n \<le> real_of_int (u - now0) / 3600000" for u
    using c assms(3) by (simp add: shouldSendAlert_def recordAlertSent_def Let_def)
  have cmp: "real n \<le> real_of_int (u - now0) / 3600000 \<longleftrightarrow> int n * 3600000 \<le> u - now0" for u
  proof -
    have "real n \<le> real_of_int (u - now0) / 3600000
            \<longleftrightarrow> real_of_int (int n * 3600000) \<le> real_of_int (u - now0)"
      by (simp add: field_simps)
    then show ?thesis
      by (simp only: of_int_le_iff)
  qed
  show ?thesis
    using c gate eq cmp by auto
qed

theorem shouldSendAlert_cooldown_witness:
  "cooldownHours None = Num 6
   \<and> shouldSendAlert None initial_state now_6NOV ''2025-11-07''
   \<and> \<not> shouldSendAlert None
         (recordAlertSent initial_state now_6NOV ''2025-11-07'' [grouped_A]) now_6NOV ''2025-11-07''
   \<and> shouldSendAlert None
         (recordAlertSent initial_state now_6NOV ''2025-11-07'' [grouped_A])
         (now_6NOV + 21600000) ''2025-11-07''
   \<and> cooldownHours (Some ''2'') = Num 2
   \<and> \<not> shouldSendAlert (Some ''2'')
         (recordAlertSent initial_state now_6NOV ''2025-11-07'' [grouped_A])
         (now_6NOV + 7199999) ''2025-11-07''
   \<and> shouldSendAlert (Some ''2'')
         (recordAlertSent initial_state now_6NOV ''2025-11-07'' [grouped_A])
         (now_6NOV + 7200000) ''2025-11-07''
   \<and> cooldownHours (Some ''2.5'') = Num 2
   \<and> cooldownHours (Some ''0.5'') = Num 0"
proof -
  have d: "decimal 2 = ''2''" "decimal 0 = ''0''"
    by (simp_all add: decimal.simps digit_char_def)
  have p6: "(None :: string option) = None \<and> (6::nat) = 6
            \<or> None = Some (decimal 6 @ []) \<and> (([] :: string) = [] \<or> hd [] = CHR ''.'')"
    by simp
  have p2: "Some ''2'' = None \<and> (2::nat) = 6
            \<or> Some ''2'' = Some (decimal 2 @ []) \<and> (([] :: string) = [] \<or> hd [] = CHR ''.'')"
    by (simp add: d)
  have p25: "Some ''2.5'' = None \<and> (2::nat) = 6
            \<or> Some ''2.5'' = Some (decimal 2 @ ''.5'') \<and> (''.5'' = [] \<or> hd ''.5'' = CHR ''.'')"
    by (simp add: d)
  have p05: "Some ''0.5'' = None \<and> (0::nat) = 6
            \<or> Some ''0.5'' = Some (decimal 0 @ ''.5'') \<and> (''.5'' = [] \<or> hd ''.5'' = CHR ''.'')"
    by (simp add: d)
  have e: "lastAlertTime initial_state ''2025-11-07'' \<noteq> Some 0" and z: "now_6NOV \<noteq> 0"
    by (simp_all add: initial_state_def now_6NOV_def)
  have A: "cooldownHours None = Num 6
   \<and> shouldSendAlert None initial_state now_6NOV ''2025-11-07''
   \<and> \<not> shouldSendAlert None
         (recordAlertSent initial_state now_6NOV ''2025-11-07'' [grouped_A]) now_6NOV ''2025-11-07''
   \<and> shouldSendAlert None
         (recordAlertSent initial_state now_6NOV ''2025-11-07'' [grouped_A])
         (now_6NOV + 21600000) ''2025-11-07''"
    using shouldSendAlert_cooldown [OF p6 e z, where now = now_6NOV
        and ?now1.0 = "now_6NOV + 21600000" and alerts = "[grouped_A]"]
    by (simp add: initial_state_def)
  have B: "cooldownHours (Some ''2'') = Num 2
   \<and> \<not> shouldSendAlert (Some ''2'')
         (recordAlertSent initial_state now_6NOV ''2025-11-07'' [grouped_A])
         (now_6NOV + 7199999) ''2025-11-07''"
    using shouldSendAlert_cooldown [OF p2 e z, where now = now_6NOV
        and ?now1.0 = "now_6NOV + 7199999" and alerts = "[grouped_A]"]
    by simp
  have C: "shouldSendAlert (Some ''2'')
         (recordAlertSent initial_state now_6NOV ''2025-11-07'' [grouped_A])
         (now_6NOV + 7200000) ''2025-11-07''"
    using shouldSendAlert_cooldown [OF p2 e z, where now = now_6NOV
        and ?now1.0 = "now_6NOV + 7200000" and alerts = "[grouped_A]"]
    by simp
  have D: "cooldownHours (Some ''2.5'') = Num 2"
    using shouldSendAlert_cooldown [OF p25 e z, where now = now_6NOV
        and ?now1.0 = now_6NOV and alerts = "[grouped_A]"]
    by simp
  have E: "cooldownHours (Some ''0.5'') = Num 0"
    using shouldSendAlert_cooldown [OF p05 e z, where now = now_6NOV
        and ?now1.0 = now_6NOV and alerts = "[grouped_A]"]
    by simp
  show ?thesis
    using A B C D E by simp
qed

subsection \<open>The order of the returned alerts\<close>

text \<open>
  C2. The live scorer does not return its records sorted descending by composite score.
  It stores the two-decimal text of the score in the record and sorts by that field: in
  the feed of ten quotes the strikes 3000 and 3100 qualify, with composite scores 5.0153
  and 5.0225; both records carry the score 5.02, and the scorer returns the strike 3000
  first, before the record of the higher composite score. The backtesting scorer and the
  scorer of the historical analysis sort by the score itself.
\<close>

theorem near_tie_not_sorted_by_composite:
  "calculateAdvancedStats OPTIMAL_THRESHOLDS now_6NOV feed_T
     = ([(''2025-11-07'', map in_cohort feed_T)], [(''2025-11-07'', stats_T)])
   \<and> map alert_symbol (detectHighProbabilityAlerts OPTIMAL_THRESHOLDS
         [(''2025-11-07'', map in_cohort feed_T)] [(''2025-11-07'', stats_T)])
       = [''ETH-7NOV25-3000-C'', ''ETH-7NOV25-3100-C'']
   \<and> composite_score OPTIMAL_THRESHOLDS stats_T (in_cohort (feed_quote ''3000'' 6 510))
       < composite_score OPTIMAL_THRESHOLDS stats_T (in_cohort (feed_quote ''3100'' 6 511))"
proof -
  have "calculateAdvancedStats OPTIMAL_THRESHOLDS now_6NOV feed_T
          = (fst (calculateAdvancedStats OPTIMAL_THRESHOLDS now_6NOV feed_T),
             snd (calculateAdvancedStats OPTIMAL_THRESHOLDS now_6NOV feed_T))"
    by simp
  then have 1: "calculateAdvancedStats OPTIMAL_THRESHOLDS now_6NOV feed_T
     = ([(''2025-11-07'', map in_cohort feed_T)], [(''2025-11-07'', stats_T)])"
    by (simp only: groups_feed_T stats_feed_T)
  have 2: "composite_score OPTIMAL_THRESHOLDS stats_T (in_cohort (feed_quote ''3000'' 6 510))
       < composite_score OPTIMAL_THRESHOLDS stats_T (in_cohort (feed_quote ''3100'' 6 511))"
    by (simp add: composite_510 composite_511)
  show ?thesis
    using 1 2 detect_feed_T by simp
qed

text \<open>
  What both scorers do return: a rearrangement of the pushed alerts that is sorted
  descending by the score field of the records, alerts of equal score field keeping the
  order in which the loops pushed them. In the backtesting scorer the score field is the
  composite score of the entry under the statistics found for its expiry; in the live
  scorer it is the two-decimal rendering of the composite score.
\<close>

lemma alerts_sorted_by_score_field:
  "sorted_wrt (\<lambda>a b. alert_anomalyScore a \<ge> alert_anomalyScore b)
      (detectHighProbabilityAlerts th g s)
   \<and> (\<forall>v. filter (\<lambda>a. alert_anomalyScore a = v) (detectHighProbabilityAlerts th g s)
            = filter (\<lambda>a. alert_anomalyScore a = v) (pushed_alerts th g s))
   \<and> mset (detectHighProbabilityAlerts th g s) = mset (pushed_alerts th g s)
   \<and> (\<forall>a \<in> set (score_opt th expiry st opt).
         alert_anomalyScore a = toFixed 2 (composite_score th st opt))
   \<and> sorted_wrt (\<lambda>a b. bt_anomalyScore a \<ge> bt_anomalyScore b)
      (Backtester_detectAnomalies opts es p v oi)
   \<and> (\<forall>w. filter (\<lambda>a. bt_anomalyScore a = w) (Backtester_detectAnomalies opts es p v oi)
            = filter (\<lambda>a. bt_anomalyScore a = w) (Backtester_pushed_alerts opts es p v oi))
   \<and> mset (Backtester_detectAnomalies opts es p v oi)
       = mset (Backtester_pushed_alerts opts es p v oi)
   \<and> (\<forall>a \<in> set (Backtester_score_opt es p v oi e).
         \<exists>ts bst. parseExpiryTimestamp (instrument e) = Some (Num ts)
            \<and> map_of es (expiryKey ts) = Some bst
            \<and> bt_anomalyScore a = Backtester_composite_score p v oi bst e)"
proof -
  have desc: "sorted_wrt (\<lambda>a b. f a \<ge> f b) (sort_key (\<lambda>a. - f a) xs)"
    for f :: "'a \<Rightarrow> real" and xs
  proof -
    have "sorted (map (\<lambda>a. - f a) (sort_key (\<lambda>a. - f a) xs))"
      by (rule sorted_sort_key)
    then show ?thesis
      by (simp add: sorted_map)
  qed
  have stable: "filter (\<lambda>a. f a = v) (sort_key (\<lambda>a. - f a) xs) = filter (\<lambda>a. f a = v) xs"
    for f :: "'a \<Rightarrow> real" and xs v
  proof -
    have "filter (\<lambda>a. - f a = - v) (sort_key (\<lambda>a. - f a) xs)
            = filter (\<lambda>a. - f a = - v) xs"
      by (rule sort_key_stable)
    then show ?thesis by simp
  qed
  have live: "\<forall>a \<in> set (score_opt th expiry st opt).
         alert_anomalyScore a = toFixed 2 (composite_score th st opt)"
    by (simp add: score_opt_def composite_score_def Let_def)
  have bt: "\<forall>a \<in> set (Backtester_score_opt es p v oi e).
         \<exists>ts bst. parseExpiryTimestamp (instrument e) = Some (Num ts)
            \<and> map_of es (expiryKey ts) = Some bst
            \<and> bt_anomalyScore a = Backtester_composite_score p v oi bst e"
  proof
    fix a
    assume a: "a \<in> set (Backtester_score_opt es p v oi e)"
    obtain ts where ts: "parseExpiryTimestamp (instrument e) = Some (Num ts)"
    proof (cases "parseExpiryTimestamp (instrument e)")
      case None
      then show ?thesis
        using a by (simp add: Backtester_score_opt_def)
    next
      case (Some x)
      show ?thesis
      proof (cases x)
        case NaN
        with Some a show ?thesis
          by (auto simp: Backtester_score_opt_def split: if_splits)
      next
        case (Num u)
        with Some that show ?thesis
          by simp
      qed
    qed
    obtain bst where bst: "map_of es (expiryKey ts) = Some bst"
    proof (cases "map_of es (expiryKey ts)")
      case None
      then show ?thesis
        using a ts by (auto simp: Backtester_score_opt_def Let_def split: if_splits)
    next
      case (Some x)
      with that show ?thesis
        by simp
    qed
    have "bt_anomalyScore a = Backtester_composite_score p v oi bst e"
      using a ts bst
      by (auto simp: Backtester_score_opt_def Backtester_composite_score_def Let_def
            split: if_splits)
    then show "\<exists>ts bst. parseExpiryTimestamp (instrument e) = Some (Num ts)
            \<and> map_of es (expiryKey ts) = Some bst
            \<and> bt_anomalyScore a = Backtester_composite_score p v oi bst e"
      using ts bst by blast
  qed
  have order: "sorted_wrt (\<lambda>a b. alert_anomalyScore a \<ge> alert_anomalyScore b)
      (detectHighProbabilityAlerts th g s)
   \<and> (\<forall>v. filter (\<lambda>a. alert_anomalyScore a = v) (detectHighProbabilityAlerts th g s)
            = filter (\<lambda>a. alert_anomalyScore a = v) (pushed_alerts th g s))
   \<and> mset (detectHighProbabilityAlerts th g s) = mset (pushed_alerts th g s)
   \<and> sorted_wrt (\<lambda>a b. bt_anomalyScore a \<ge> bt_anomalyScore b)
      (Backtester_detectAnomalies opts es p v oi)
   \<and> (\<forall>w. filter (\<lambda>a. bt_anomalyScore a = w) (Backtester_detectAnomalies opts es p v oi)
            = filter (\<lambda>a. bt_anomalyScore a = w) (Backtester_pushed_alerts opts es p v oi))
   \<and> mset (Backtester_detectAnomalies opts es p v oi)
       = mset (Backtester_pushed_alerts opts es p v oi)"
    unfolding detectHighProbabilityAlerts_def Backtester_detectAnomalies_def
    by (intro conjI allI)
       (rule desc [of alert_anomalyScore] stable [of alert_anomalyScore]
          desc [of bt_anomalyScore] stable [of bt_anomalyScore] mset_sort)+
  show ?thesis
    using order live bt by blast
qed

subsection \<open>The backtest pass\<close>

text \<open>
  C3, as stated, fails: a sample whose quotes produce alerts but whose recorded future
  price is 0 does not increment \<open>totalAlerts\<close>.
\<close>

theorem zero_future_sample_not_counted:
  "sample_alerts 1 1 1 sample_zero_future \<noteq> []
   \<and> totalAlerts (runBacktest [sample_zero_future] 1 1 1) = 0"
proof -
  have "length (sample_alerts 1 1 1 sample_zero_future) = 2"
    unfolding sample_zero_future_def by (rule sample_with_alerts)
  then have "sample_alerts 1 1 1 sample_zero_future \<noteq> []"
    by auto
  moreover have "totalAlerts (runBacktest [sample_zero_future] 1 1 1) = 0"
    by (simp add: runBacktest_def backtest_step_def sample_zero_future_def sample_with_def)
  ultimately show ?thesis by simp
qed

text \<open>
  C3, amended. In a backtest pass with fixed weights, a sample whose recorded future
  price is present and not 0 adds one to \<open>totalAlerts\<close> iff it produces an alert; it then
  adds one to \<open>successful\<close> if \<open>|(future - ref) / ref| * 100 \<ge> 2\<close>, which for a positive
  reference price is \<open>|future - ref| / ref \<ge> 0.02\<close>, and one to \<open>falsePositives\<close>
  otherwise; a sample producing no alert changes no counter. \<open>successRate\<close> is
  \<open>successful / totalAlerts * 100\<close> and \<open>precision\<close> is \<open>successful / totalAlerts\<close>, both
  0 when \<open>totalAlerts\<close> is 0.
\<close>

theorem runBacktest_counts:
  assumes "futureETHPrice dp = Some f" "f \<noteq> 0"
  shows "totalAlerts (runBacktest (xs @ dp # ys) p v oi)
           = totalAlerts (runBacktest (xs @ ys) p v oi)
               + (if sample_alerts p v oi dp \<noteq> [] then 1 else 0)
       \<and> successful (runBacktest (xs @ dp # ys) p v oi)
           = successful (runBacktest (xs @ ys) p v oi)
               + (if sample_alerts p v oi dp \<noteq> [] \<and> significantMove f (ethPrice dp)
                  then 1 else 0)
       \<and> falsePositives (runBacktest (xs @ dp # ys) p v oi)
           = falsePositives (runBacktest (xs @ ys) p v oi)
               + (if sample_alerts p v oi dp \<noteq> [] \<and> \<not> significantMove f (ethPrice dp)
                  then 1 else 0)
       \<and> (0 < ethPrice dp \<longrightarrow>
            (significantMove f (ethPrice dp) \<longleftrightarrow> \<bar>f - ethPrice dp\<bar> / ethPrice dp \<ge> 0.02))
       \<and> successRate (runBacktest h p v oi) =
            (if totalAlerts (runBacktest h p v oi) = 0 then 0
             else real (successful (runBacktest h p v oi))
                    / real (totalAlerts (runBacktest h p v oi)) * 100)
       \<and> precision (runBacktest h p v oi) =
            (if totalAlerts (runBacktest h p v oi) = 0 then 0
             else real (successful (runBacktest h p v oi))
                    / real (totalAlerts (runBacktest h p v oi)))"
proof -
  obtain a b c where X: "tally p v oi xs = (a, b, c)"
    by (cases "tally p v oi xs")
  obtain a' b' c' where Y: "tally p v oi ys = (a', b', c')"
    by (cases "tally p v oi ys")
  have L: "tally p v oi (xs @ dp # ys)
             = add3 (a, b, c) (add3 (backtest_step p v oi (0, 0, 0) dp) (a', b', c'))"
    by (simp only: tally_insert X Y)
  have R: "tally p v oi (xs @ ys) = add3 (a, b, c) (a', b', c')"
    by (simp only: tally_append X Y)
  have counters:
    "totalAlerts (runBacktest (xs @ dp # ys) p v oi)
       = totalAlerts (runBacktest (xs @ ys) p v oi)
           + (if sample_alerts p v oi dp \<noteq> [] then 1 else 0)"
    "successful (runBacktest (xs @ dp # ys) p v oi)
       = successful (runBacktest (xs @ ys) p v oi)
           + (if sample_alerts p v oi dp \<noteq> [] \<and> significantMove f (ethPrice dp) then 1 else 0)"
    "falsePositives (runBacktest (xs @ dp # ys) p v oi)
       = falsePositives (runBacktest (xs @ ys) p v oi)
           + (if sample_alerts p v oi dp \<noteq> [] \<and> \<not> significantMove f (ethPrice dp)
              then 1 else 0)"
    using assms by (simp_all add: run_fields L R step_zero_cases)
  show ?thesis
    using counters significantMove_positive [of "ethPrice dp" f] run_rates [of h p v oi]
    by simp
qed

theorem runBacktest_counts_witness:
  "totalAlerts (runBacktest [sample_move] 1 1 1) = 1
   \<and> successful (runBacktest [sample_move] 1 1 1) = 1
   \<and> falsePositives (runBacktest [sample_move] 1 1 1) = 0
   \<and> successRate (runBacktest [sample_move] 1 1 1) = 100
   \<and> precision (runBacktest [sample_move] 1 1 1) = 1
   \<and> significantMove 110 100 \<and> \<bar>110 - 100\<bar> / 100 \<ge> (0.02 :: real)
   \<and> totalAlerts (runBacktest [sample_flat] 1 1 1) = 1
   \<and> successful (runBacktest [sample_flat] 1 1 1) = 0
   \<and> falsePositives (runBacktest [sample_flat] 1 1 1) = 1
   \<and> totalAlerts (runBacktest [sample_quiet] 1 1 1) = 0
   \<and> successful (runBacktest [sample_quiet] 1 1 1) = 0
   \<and> falsePositives (runBacktest [sample_quiet] 1 1 1) = 0"
proof -
  have alerts: "sample_alerts 1 1 1 sample_move \<noteq> []" "sample_alerts 1 1 1 sample_flat \<noteq> []"
    using sample_with_alerts [of "Some 110"] sample_with_alerts [of "Some 101"]
    by (auto simp: sample_move_def sample_flat_def)
  have m: "futureETHPrice sample_move = Some 110" "ethPrice sample_move = 100"
    and fl: "futureETHPrice sample_flat = Some 101" "ethPrice sample_flat = 100"
    and q: "futureETHPrice sample_quiet = Some 110"
    by (simp_all add: sample_move_def sample_flat_def sample_with_def sample_quiet_def)
  have nz: "(110::real) \<noteq> 0" "(101::real) \<noteq> 0"
    by simp_all
  have sig: "significantMove 110 100" "\<not> significantMove 101 100"
    by (simp_all add: significantMove_def)
  have M: "totalAlerts (runBacktest [sample_move] 1 1 1) = 1
       \<and> successful (runBacktest [sample_move] 1 1 1) = 1
       \<and> falsePositives (runBacktest [sample_move] 1 1 1) = 0
       \<and> successRate (runBacktest [sample_move] 1 1 1) = 100
       \<and> precision (runBacktest [sample_move] 1 1 1) = 1"
    using runBacktest_counts [OF m(1) nz(1), where xs = "[]" and ys = "[]" and p = 1
        and v = 1 and oi = 1 and h = "[sample_move]"]
    by (simp add: alerts m sig run_empty)
  have F: "totalAlerts (runBacktest [sample_flat] 1 1 1) = 1
       \<and> successful (runBacktest [sample_flat] 1 1 1) = 0
       \<and> falsePositives (runBacktest [sample_flat] 1 1 1) = 1"
    using runBacktest_counts [OF fl(1) nz(2), where xs = "[]" and ys = "[]" and p = 1
        and v = 1 and oi = 1 and h = "[]"]
    by (simp add: alerts fl sig run_empty)
  have Q: "totalAlerts (runBacktest [sample_quiet] 1 1 1) = 0
       \<and> successful (runBacktest [sample_quiet] 1 1 1) = 0
       \<and> falsePositives (runBacktest [sample_quiet] 1 1 1) = 0"
    using runBacktest_counts [OF q nz(1), where xs = "[]" and ys = "[]" and p = 1
        and v = 1 and oi = 1 and h = "[]"]
    by (simp add: sample_quiet_alerts run_empty)
  show ?thesis
    using M F Q sig by simp
qed

text \<open>
  C10. A sample whose recorded future price is absent or 0 is skipped: the pass over a
  corpus that contains it returns what the pass over the corpus without it returns, so
  it adds to none of \<open>totalAlerts\<close>, \<open>successful\<close> and \<open>falsePositives\<close>, also when its
  quotes would qualify as alerts.
\<close>

theorem runBacktest_skips_falsy_future:
  assumes "futureETHPrice dp = None \<or> futureETHPrice dp = Some 0"
  shows "runBacktest (xs @ dp # ys) p v oi = runBacktest (xs @ ys) p v oi"
proof -
  have "backtest_step p v oi c dp = c" for c
    using assms by (cases c) (auto simp: backtest_step_def)
  then show ?thesis
    by (simp add: runBacktest_def)
qed

theorem runBacktest_skips_falsy_future_witness:
  "futureETHPrice sample_absent = None
   \<and> length (sample_alerts 1 1 1 sample_absent) = 2
   \<and> runBacktest [sample_move, sample_absent] 1 1 1 = runBacktest [sample_move] 1 1 1
   \<and> totalAlerts (runBacktest [sample_absent] 1 1 1) = 0
   \<and> successful (runBacktest [sample_absent] 1 1 1) = 0
   \<and> falsePositives (runBacktest [sample_absent] 1 1 1) = 0"
proof -
  have a: "futureETHPrice sample_absent = None"
    by (simp add: sample_absent_def sample_with_def)
  have b: "length (sample_alerts 1 1 1 sample_absent) = 2"
    unfolding sample_absent_def by (rule sample_with_alerts)
  have h: "futureETHPrice sample_absent = None \<or> futureETHPrice sample_absent = Some 0"
    using a by simp
  show ?thesis
    using a b
      runBacktest_skips_falsy_future [OF h, where xs = "[sample_move]" and ys = "[]"
        and p = 1 and v = 1 and oi = 1]
      runBacktest_skips_falsy_future [OF h, where xs = "[]" and ys = "[]"
        and p = 1 and v = 1 and oi = 1]
    by (simp add: run_empty)
qed

subsection \<open>The empty corpus\<close>

text \<open>
  C4. With an empty corpus and non-empty candidate lists the grid search has a first
  entry, and the report built from it has \<open>totalAlerts = 0\<close>, \<open>successRate = 0\<close> (and the
  other performance figures 0) and the recommendation of the poor band; no property of
  \<open>undefined\<close> is read.
\<close>

theorem empty_corpus_report:
  assumes "ps \<noteq> []" "vs \<noteq> []" "os \<noteq> []"
  shows "\<exists>r. report_of [] (first_result (testThresholds [] ps vs os)) = Inr r
           \<and> perf_totalAlerts r = 0 \<and> perf_successful r = 0 \<and> perf_falsePositives r = 0
           \<and> perf_successRate r = 0 \<and> perf_precision r = 0 \<and> dataPoints r = 0
           \<and> recommendation r
                = ''POOR: Very low success rate. Criteria need significant refinement.''"
proof -
  obtain r rs where rs: "testThresholds [] ps vs os = r # rs"
    using testThresholds_nonempty [OF assms, of "[]"]
    by (cases "testThresholds [] ps vs os") auto
  then have "r \<in> set (testThresholds [] ps vs os)"
    by simp
  then have z: "totalAlerts r = 0" "successful r = 0" "falsePositives r = 0"
      "successRate r = 0" "precision r = 0"
    using testThresholds_set [of r "[]" ps vs os] by (auto simp: run_empty)
  show ?thesis
    using z by (simp add: rs first_result_def report_of_def generateRecommendation_def)
qed

theorem empty_corpus_report_witness:
  "\<exists>r. generateReport [] = Inr r
     \<and> perf_totalAlerts r = 0 \<and> perf_successRate r = 0
     \<and> recommendation r = ''POOR: Very low success rate. Criteria need significant refinement.''"
proof -
  have ne: "[0.5, 1.0, 1.5, 2.0, 2.5, 3.0] \<noteq> ([] :: real list)"
      "[0.5, 1.0, 1.5, 2.0, 2.5] \<noteq> ([] :: real list)"
      "[0.3, 0.5, 0.7, 1.0] \<noteq> ([] :: real list)"
    by simp_all
  show ?thesis
    using empty_corpus_report [OF ne]
    unfolding generateReport_def findOptimalThresholds_def by blast
qed

subsection \<open>The expiry parser\<close>

text \<open>
  C8. The symbol \<open>ETH-7NOV25-3300-C\<close> parses to the time value 1762502400000, which is
  the instant 2025-11-07T08:00:00Z (08:00 UTC on the parsed date), and the cohort key
  computed from it is the ISO calendar date \<open>2025-11-07\<close>.
\<close>

theorem parse_ETH_7NOV25:
  "parseExpiryTimestamp ''ETH-7NOV25-3300-C'' = Some (Num 1762502400000)
   \<and> toISOString 1762502400000 = ''2025-11-07T08:00:00.000Z''
   \<and> expiryKey 1762502400000 = ''2025-11-07''"
  by code_simp

text \<open>
  C9. For a symbol with at least two hyphen-delimited segments and a recognised month
  whose day prefix holds no number for \<open>parseInt\<close> (as in \<open>ETH-NOV25-3300-C\<close>), the expiry
  parser returns \<open>NaN\<close>, not \<open>null\<close>. \<open>NaN\<close> is falsy, so the aggregator of the live
  monitor and both loops of the backtester drop a quote with that symbol: their results
  are those for the input without the quote, and the quote is never scored.
\<close>

theorem non_numeric_day_is_NaN_and_excluded:
  assumes "2 \<le> length (split_on CHR ''-'' s)"
    and "monthMap (slice (split_on CHR ''-'' s ! 1) (- 5) (- 2)) = Some m"
    and "parseInt (slice (split_on CHR ''-'' s ! 1) 0 (- 5)) = NaN"
    and "instrument_name q = s" and "instrument e = s"
  shows "parseExpiryTimestamp s = Some NaN
     \<and> \<not> truthy (parseExpiryTimestamp s)
     \<and> calculateAdvancedStats th now (xs @ q # ys) = calculateAdvancedStats th now (xs @ ys)
     \<and> Backtester_calculateExpiryStats (es @ e # es') = Backtester_calculateExpiryStats (es @ es')
     \<and> Backtester_detectAnomalies (es @ e # es') st p v oi
         = Backtester_detectAnomalies (es @ es') st p v oi
     \<and> getTimeToExpiry s now' = None"
proof -
  have P: "parseExpiryTimestamp s = Some NaN"
    using assms(1-3) by (simp add: parseExpiryTimestamp_def Let_def Date_UTC_NaN_day)
  then have F: "\<not> truthy (parseExpiryTimestamp s)"
    by simp
  have 1: "calculateAdvancedStats th now (xs @ q # ys) = calculateAdvancedStats th now (xs @ ys)"
    using F assms(4) by (simp add: calculateAdvancedStats_def group_step_falsy)
  have 2: "Backtester_calculateExpiryStats (es @ e # es')
             = Backtester_calculateExpiryStats (es @ es')"
    using F assms(5) by (simp add: Backtester_calculateExpiryStats_def Backtester_group_step_falsy)
  have 3: "Backtester_detectAnomalies (es @ e # es') st p v oi
             = Backtester_detectAnomalies (es @ es') st p v oi"
    using F assms(5)
    by (simp add: Backtester_detectAnomalies_def Backtester_pushed_alerts_def
          Backtester_score_opt_falsy)
  have 4: "getTimeToExpiry s now' = None"
    using F by (simp add: getTimeToExpiry_def)
  show ?thesis
    using P F 1 2 3 4 by simp
qed

theorem non_numeric_day_is_NaN_and_excluded_witness:
  "parseExpiryTimestamp ''ETH-NOV25-3300-C'' = Some NaN
   \<and> calculateAdvancedStats OPTIMAL_THRESHOLDS now_6NOV [quote_A, quote_no_day]
       = calculateAdvancedStats OPTIMAL_THRESHOLDS now_6NOV [quote_A]
   \<and> Backtester_calculateExpiryStats [entry_C, entry_no_day, entry_P]
       = [(''2025-11-07'', stats_CP)]
   \<and> Backtester_detectAnomalies [entry_C, entry_no_day, entry_P] [(''2025-11-07'', stats_CP)] 1 1 1
       = Backtester_detectAnomalies [entry_C, entry_P] [(''2025-11-07'', stats_CP)] 1 1 1"
proof -
  have h1: "2 \<le> length (split_on CHR ''-'' ''ETH-NOV25-3300-C'')"
    by code_simp
  have h2: "monthMap (slice (split_on CHR ''-'' ''ETH-NOV25-3300-C'' ! 1) (- 5) (- 2)) = Some 10"
    by code_simp
  have h3: "parseInt (slice (split_on CHR ''-'' ''ETH-NOV25-3300-C'' ! 1) 0 (- 5)) = NaN"
    by code_simp
  have h4: "instrument_name quote_no_day = ''ETH-NOV25-3300-C''"
    and h5: "instrument entry_no_day = ''ETH-NOV25-3300-C''"
    by (simp_all add: quote_no_day_def entry_no_day_def)
  show ?thesis
    using non_numeric_day_is_NaN_and_excluded [OF h1 h2 h3 h4 h5, where th = OPTIMAL_THRESHOLDS
        and now = now_6NOV and xs = "[quote_A]" and ys = "[]" and es = "[entry_C]"
        and es' = "[entry_P]" and st = "[(''2025-11-07'', stats_CP)]" and p = 1 and v = 1
        and oi = 1 and now' = now_6NOV]
    by (simp add: stats_entries_CP)
qed

end
